theory Spec2Isabelle
  imports Complex_Main "HOL-Library.AList" "HOL-Library.Multiset"
begin

section \<open>RDF terms, errors and triple patterns\<close>

text \<open>
  The exceptions the engine raises are values. \<open>SyntaxError\<close>, \<open>TypeError\<close> and
  \<open>Error\<close> are the JavaScript classes the sources throw; \<open>Thrown\<close> is whatever a
  user-supplied function or a graph backend throws.
\<close>

datatype error = SyntaxError | TypeError | Error | Thrown string

text \<open>
  Modelled from the spec: the RDF term model (\<open>utils/rdf\<close> is not among the sources).
  Section 3 of the specification lists IRI, blank node, literal (lexical form, language
  tag, datatype IRI), variable and the synthetic \<open>Unbound\<close> sentinel; the sources also
  test for quads and property paths (\<open>rdf.isQuad\<close>, \<open>rdf.isPropertyPath\<close>).
\<close>

datatype rdf_term =
    NamedNode string
  | BlankNode string
  | Literal string string string
  | Variable string
  | QuadTerm string
  | PropertyPath string
  | Unbound

fun isVariable :: "rdf_term \<Rightarrow> bool" where
  "isVariable (Variable n) = True"
| "isVariable t = False"

fun isLiteral :: "rdf_term \<Rightarrow> bool" where
  "isLiteral (Literal v l d) = True"
| "isLiteral t = False"

fun isBlankNode :: "rdf_term \<Rightarrow> bool" where
  "isBlankNode (BlankNode n) = True"
| "isBlankNode t = False"

fun isQuad :: "rdf_term \<Rightarrow> bool" where
  "isQuad (QuadTerm q) = True"
| "isQuad t = False"

fun isPropertyPath :: "rdf_term \<Rightarrow> bool" where
  "isPropertyPath (PropertyPath p) = True"
| "isPropertyPath t = False"

text \<open>The \<open>.value\<close> field of a term object; a property path object has none.\<close>

fun term_value :: "rdf_term \<Rightarrow> string option" where
  "term_value (NamedNode v) = Some v"
| "term_value (BlankNode v) = Some v"
| "term_value (Literal v l d) = Some v"
| "term_value (Variable v) = Some v"
| "term_value (QuadTerm v) = Some []"
| "term_value (PropertyPath p) = None"
| "term_value Unbound = Some ''UNBOUND''"

record triple =
  subject :: rdf_term
  predicate :: rdf_term
  object :: rdf_term

section \<open>Solution mappings (bindings.ts)\<close>

text \<open>
  \<open>BindingBase\<close> keeps its mappings in a JavaScript \<open>Map\<close> from the variable's name to the
  bound value, and a second \<open>Map\<close> of properties. Both are association lists in insertion
  order: \<open>Map.set\<close> replaces the value of a key in place and appends a new key, which is
  \<open>AList.update\<close>. The type \<open>'v\<close> of the bound values is a parameter: it is \<open>rdf_term\<close>
  where a method reads the term, and the type of object references where a method only
  compares what it finds with \<open>===\<close> or \<open>!==\<close>. A \<open>rdf.Variable\<close> argument is given by
  its name. The only property the sources read is \<open>__aggregate\<close>, a \<open>BindingGroup\<close>.
\<close>

type_synonym 'v BindingGroup = "(string \<times> 'v list) list"

record 'v Bindings =
  content :: "(string \<times> 'v) list"
  properties :: "(string \<times> 'v BindingGroup) list"

definition empty_bindings :: "'v Bindings" where
  "empty_bindings = \<lparr>content = [], properties = []\<rparr>"

definition size_bindings :: "'v Bindings \<Rightarrow> nat" where
  "size_bindings this = length (content this)"

definition variables :: "'v Bindings \<Rightarrow> string list" where
  "variables this = map fst (content this)"

definition get :: "'v Bindings \<Rightarrow> string \<Rightarrow> 'v option" where
  "get this variable = map_of (content this) variable"

fun has :: "'v Bindings \<Rightarrow> rdf_term \<Rightarrow> bool" where
  "has this (Variable n) = (map_of (content this) n \<noteq> None)"
| "has this t = False"

definition set_bindings :: "'v Bindings \<Rightarrow> string \<Rightarrow> 'v \<Rightarrow> 'v Bindings" where
  "set_bindings this variable v = this\<lparr>content := AList.update variable v (content this)\<rparr>"

definition getProperty :: "'v Bindings \<Rightarrow> string \<Rightarrow> 'v BindingGroup option" where
  "getProperty this k = map_of (properties this) k"

definition hasProperty :: "'v Bindings \<Rightarrow> string \<Rightarrow> bool" where
  "hasProperty this k = (map_of (properties this) k \<noteq> None)"

definition setProperty :: "'v Bindings \<Rightarrow> string \<Rightarrow> 'v BindingGroup \<Rightarrow> 'v Bindings" where
  "setProperty this k p = this\<lparr>properties := AList.update k p (properties this)\<rparr>"

text \<open>\<open>clone\<close>: a fresh set of mappings, the properties copied first, then the values.\<close>

definition clone :: "'v Bindings \<Rightarrow> 'v Bindings" where
  "clone this =
     foldl (\<lambda>cloned (variable, v). set_bindings cloned variable v)
       (foldl (\<lambda>cloned (k, p). setProperty cloned k p) empty_bindings (properties this))
       (content this)"

text \<open>
  \<open>equals\<close>: the sizes are compared, then the loop over \<open>other.variables()\<close> returns
  \<open>false\<close> at the first variable that \<open>this\<close> lacks or whose two values differ under
  \<open>!==\<close>. On \<open>'v\<close> the comparison is HOL equality; for values that are objects, \<open>'v\<close> is
  the type of their references.
\<close>

fun equals_loop :: "'v Bindings \<Rightarrow> 'v Bindings \<Rightarrow> string list \<Rightarrow> bool" where
  "equals_loop this other [] = True"
| "equals_loop this other (variable # rest) =
     (if \<not> has this (Variable variable) \<or> get this variable \<noteq> get other variable then False
      else equals_loop this other rest)"

definition equals :: "'v Bindings \<Rightarrow> 'v Bindings \<Rightarrow> bool" where
  "equals this other =
     (if size_bindings this \<noteq> size_bindings other then False
      else equals_loop this other (variables other))"

text \<open>
  \<open>bound\<close>: a copy of the triple pattern in which a variable in subject, predicate (unless
  it is a property path) or object position that the mappings bind is replaced by its
  value.
\<close>

fun bound_position :: "rdf_term Bindings \<Rightarrow> rdf_term \<Rightarrow> rdf_term" where
  "bound_position this (Variable n) =
     (case get this n of Some v \<Rightarrow> v | None \<Rightarrow> Variable n)"
| "bound_position this t = t"

definition bound :: "rdf_term Bindings \<Rightarrow> triple \<Rightarrow> triple" where
  "bound this t =
     \<lparr>subject = (if isVariable (subject t) \<and> has this (subject t)
                 then bound_position this (subject t) else subject t),
      predicate = (if \<not> isPropertyPath (predicate t) \<and> isVariable (predicate t)
                      \<and> has this (predicate t)
                   then bound_position this (predicate t) else predicate t),
      object = (if isVariable (object t) \<and> has this (object t)
                then bound_position this (object t) else object t)\<rparr>"

text \<open>\<open>union\<close>: a clone of \<open>this\<close> in which every mapping of \<open>other\<close> is then set.\<close>

definition union_bindings :: "'v Bindings \<Rightarrow> 'v Bindings \<Rightarrow> 'v Bindings" where
  "union_bindings this other =
     foldl (\<lambda>cloned (variable, v). set_bindings cloned variable v) (clone this) (content other)"

text \<open>\<open>isSubset\<close>: every variable of \<open>this\<close> is bound by \<open>other\<close> to the same value.\<close>

definition isSubset :: "'v Bindings \<Rightarrow> 'v Bindings \<Rightarrow> bool" where
  "isSubset this other =
     list_all (\<lambda>v. has other (Variable v) \<and> get other v = get this v) (variables this)"

section \<open>Pipeline stages\<close>

text \<open>
  Modelled from the spec: the pipeline engine (\<open>engine/pipeline\<close> is not among the
  sources). Section 4.1 of the specification: a stage is a lazy sequence, an operator
  receives one element at a time, order within a stage is the order of its source, and
  an error propagates to the sink. A stage is the list of the elements it delivers,
  followed by its completion (\<open>None\<close>) or by the error that ends it. The stages that
  \<open>mergeMap\<close> obtains from its callback are taken in the order of their inputs, as they
  come when every stage delivers synchronously.
\<close>

datatype 'a stage = Stage (items: "'a list") (failure: "error option")

definition engine_of :: "'a \<Rightarrow> 'a stage" where
  "engine_of x = Stage [x] None"

definition engine_empty :: "'a stage" where
  "engine_empty = Stage [] None"

definition engine_from :: "'a list \<Rightarrow> 'a stage" where
  "engine_from xs = Stage xs None"

text \<open>\<open>stage_append s1 s2\<close>: \<open>s2\<close> is delivered after \<open>s1\<close> completes; an error of \<open>s1\<close> ends the result.\<close>

definition stage_append :: "'a stage \<Rightarrow> 'a stage \<Rightarrow> 'a stage" where
  "stage_append s1 s2 =
     (case failure s1 of
        Some e \<Rightarrow> s1
      | None \<Rightarrow> Stage (items s1 @ items s2) (failure s2))"

text \<open>\<open>map\<close>: the callback may throw, and its error then ends the stage.\<close>

fun map_items :: "('a \<Rightarrow> error + 'b) \<Rightarrow> 'a list \<Rightarrow> 'b stage" where
  "map_items f [] = engine_empty"
| "map_items f (x # xs) =
     (case f x of
        Inl e \<Rightarrow> Stage [] (Some e)
      | Inr y \<Rightarrow> stage_append (engine_of y) (map_items f xs))"

definition engine_map :: "'a stage \<Rightarrow> ('a \<Rightarrow> error + 'b) \<Rightarrow> 'b stage" where
  "engine_map src f = stage_append (map_items f (items src)) (Stage [] (failure src))"

fun mergeMap_items :: "('a \<Rightarrow> 'b stage) \<Rightarrow> 'a list \<Rightarrow> 'b stage" where
  "mergeMap_items f [] = engine_empty"
| "mergeMap_items f (x # xs) = stage_append (f x) (mergeMap_items f xs)"

definition engine_mergeMap :: "'a stage \<Rightarrow> ('a \<Rightarrow> 'b stage) \<Rightarrow> 'b stage" where
  "engine_mergeMap src f = stage_append (mergeMap_items f (items src)) (Stage [] (failure src))"


section \<open>SPARQL expressions (sparql-expression.ts)\<close>

text \<open>
  \<open>ExpressionOutput\<close>: \<open>null\<close>, one term, or an array or iterable of terms and nulls. An
  array or iterable is the list of the items it yields, followed by its completion or by
  the error it throws while it is iterated (an array always completes).
\<close>

datatype 'v ExpressionOutput = Null | Term 'v | Terms "'v option list" "error option"

text \<open>
  The expression tree of sparqljs, in the order \<open>_compileExpression\<close> tests it: a term
  (a variable is a term; a property path is not, and is of no known kind), an array of
  terms, an operation, an aggregate (its inner expression is cast to a variable, given
  here by its name, with the \<open>distinct\<close> flag and the separator), a function call, and
  anything else.
\<close>

datatype expression =
    TermExpr rdf_term
  | ListExpr "rdf_term list"
  | OperationExpr string "expression list"
  | AggregateExpr string string bool "string option"
  | FunctionCallExpr string "expression list"
  | OtherExpr

text \<open>
  The operator tables are not among the sources and are parameters: \<open>SPARQL_OPERATIONS\<close>,
  \<open>SPARQL_AGGREGATES\<close>, \<open>CUSTOM_AGGREGATES\<close> and \<open>CUSTOM_OPERATIONS\<close>, each a partial map
  from the keys that JavaScript's \<open>in\<close> finds to a function that returns or throws, with
  \<open>String.toLowerCase\<close> and \<open>rdf.toN3\<close>. A custom function takes the evaluated arguments.
\<close>

type_synonym CustomFunction = "rdf_term ExpressionOutput list \<Rightarrow> error + rdf_term ExpressionOutput"

type_synonym CustomFunctions = "string \<Rightarrow> CustomFunction option"

record tables =
  SPARQL_OPERATIONS :: "string \<Rightarrow> CustomFunction option"
  SPARQL_AGGREGATES ::
    "string \<Rightarrow> (string \<Rightarrow> rdf_term BindingGroup \<Rightarrow> string option \<Rightarrow> error + rdf_term ExpressionOutput) option"
  CUSTOM_AGGREGATES ::
    "string \<Rightarrow> (expression list \<Rightarrow> rdf_term BindingGroup \<Rightarrow> error + rdf_term ExpressionOutput) option"
  CUSTOM_OPERATIONS :: CustomFunctions
  toLowerCase :: "string \<Rightarrow> string"
  toN3 :: "rdf_term \<Rightarrow> string"

text \<open>
  A compiled expression takes the mappings and returns its output or the error it
  throws, with the mappings as the evaluation leaves them: an aggregate with \<open>DISTINCT\<close>
  replaces, in place, the rows of its variable in the \<open>__aggregate\<close> property.
\<close>

type_synonym CompiledExpression =
  "rdf_term Bindings \<Rightarrow> (error + rdf_term ExpressionOutput) \<times> rdf_term Bindings"

text \<open>lodash \<open>uniqBy\<close>: the first element of every key, in order.\<close>

fun uniqBy :: "'a list \<Rightarrow> ('a \<Rightarrow> 'k) \<Rightarrow> 'a list" where
  "uniqBy [] f = []"
| "uniqBy (x # xs) f = x # uniqBy (filter (\<lambda>y. f y \<noteq> f x) xs) f"

text \<open>An array of results, each a value or a thrown error: the values, or the first error.\<close>

fun first_error :: "(error + 'a) list \<Rightarrow> error + 'a list" where
  "first_error [] = Inr []"
| "first_error (Inl e # rs) = Inl e"
| "first_error (Inr x # rs) = (case first_error rs of Inl e \<Rightarrow> Inl e | Inr xs \<Rightarrow> Inr (x # xs))"

text \<open>\<open>args.map((arg) => arg(bindings))\<close>: left to right, until one throws.\<close>

fun evaluate_args ::
  "CompiledExpression list \<Rightarrow> rdf_term Bindings \<Rightarrow> (error + rdf_term ExpressionOutput list) \<times> rdf_term Bindings"
where
  "evaluate_args [] bindings = (Inr [], bindings)"
| "evaluate_args (arg # args) bindings =
     (case arg bindings of
        (Inl e, b1) \<Rightarrow> (Inl e, b1)
      | (Inr v, b1) \<Rightarrow>
          (case evaluate_args args b1 of
             (Inl e, b2) \<Rightarrow> (Inl e, b2)
           | (Inr vs, b2) \<Rightarrow> (Inr (v # vs), b2)))"

definition bindArgument :: "string \<Rightarrow> CompiledExpression" where
  "bindArgument variable bindings =
     (if has bindings (Variable variable)
      then (case get bindings variable of Some t \<Rightarrow> (Inr (Term t), bindings)
            | None \<Rightarrow> (Inr Null, bindings))
      else (Inr Null, bindings))"

definition aggregate_rows :: "rdf_term Bindings \<Rightarrow> rdf_term BindingGroup" where
  "aggregate_rows bindings =
     (case getProperty bindings ''__aggregate'' of Some rows \<Rightarrow> rows | None \<Rightarrow> [])"

text \<open>
  \<open>_compileExpression\<close>. It throws while compiling (\<open>Inl\<close>) on an unknown operator,
  aggregate or function and on an expression of no known kind. The closure of a function
  call compiles and evaluates the arguments and calls the function inside one \<open>try\<close>,
  whose \<open>catch\<close> returns \<open>null\<close>.
\<close>

fun compileExpression ::
  "tables \<Rightarrow> CustomFunctions \<Rightarrow> expression \<Rightarrow> error + CompiledExpression"
where
  "compileExpression T customFunctions (TermExpr t) =
     (case t of
        Variable n \<Rightarrow> Inr (bindArgument n)
      | PropertyPath p \<Rightarrow> Inl Error
      | _ \<Rightarrow> Inr (\<lambda>bindings. (Inr (Term t), bindings)))"
| "compileExpression T customFunctions (ListExpr ts) =
     Inr (\<lambda>bindings. (Inr (Terms (map Some ts) None), bindings))"
| "compileExpression T customFunctions (OperationExpr operator args) =
     (case first_error (map (compileExpression T customFunctions) args) of
        Inl e \<Rightarrow> Inl e
      | Inr compiled \<Rightarrow>
          (case SPARQL_OPERATIONS T operator of
             None \<Rightarrow> Inl Error
           | Some operation \<Rightarrow>
               Inr (\<lambda>bindings.
                 (case evaluate_args compiled bindings of
                    (Inl e, b1) \<Rightarrow> (Inl e, b1)
                  | (Inr vs, b1) \<Rightarrow> (operation vs, b1)))))"
| "compileExpression T customFunctions (AggregateExpr aggregation aggVariable isDistinct separator) =
     (case SPARQL_AGGREGATES T aggregation of
        None \<Rightarrow> Inl Error
      | Some aggregate \<Rightarrow>
          Inr (\<lambda>bindings.
            if hasProperty bindings ''__aggregate'' then
              (let rows = aggregate_rows bindings;
                   rows1 = (if isDistinct
                            then AList.update aggVariable
                                   (uniqBy (case map_of rows aggVariable of Some ts \<Rightarrow> ts | None \<Rightarrow> [])
                                      (toN3 T)) rows
                            else rows)
               in (aggregate aggVariable rows1 separator,
                   setProperty bindings ''__aggregate'' rows1))
            else (Inl SyntaxError, bindings)))"
| "compileExpression T customFunctions (FunctionCallExpr functionName args) =
     (case CUSTOM_AGGREGATES T (toLowerCase T functionName) of
        Some customAggregate \<Rightarrow>
          Inr (\<lambda>bindings.
            if hasProperty bindings ''__aggregate''
            then (customAggregate args (aggregate_rows bindings), bindings)
            else (Inl SyntaxError, bindings))
      | None \<Rightarrow>
          (case customFunctions functionName of
             None \<Rightarrow> Inl SyntaxError
           | Some customFunction \<Rightarrow>
               Inr (\<lambda>bindings.
                 (case first_error (map (compileExpression T customFunctions) args) of
                    Inl e \<Rightarrow> (Inr Null, bindings)
                  | Inr compiled \<Rightarrow>
                      (case evaluate_args compiled bindings of
                         (Inl e, b1) \<Rightarrow> (Inr Null, b1)
                       | (Inr vs, b1) \<Rightarrow>
                           (case customFunction vs of
                              Inl e \<Rightarrow> (Inr Null, b1)
                            | Inr out \<Rightarrow> (Inr out, b1)))))))"
| "compileExpression T customFunctions OtherExpr = Inl Error"

text \<open>
  \<open>new SPARQLExpression(expression, customFunctions)\<close>: the functions of the caller are
  merged over \<open>CUSTOM_OPERATIONS\<close> and the expression is compiled; \<open>evaluate\<close> applies
  the compiled expression.
\<close>

definition SPARQLExpression ::
  "tables \<Rightarrow> CustomFunctions \<Rightarrow> expression \<Rightarrow> error + CompiledExpression"
where
  "SPARQLExpression T customFunctions expr =
     compileExpression T (CUSTOM_OPERATIONS T ++ customFunctions) expr"

section \<open>BIND (bind.ts)\<close>

text \<open>
  The callback that \<open>bind\<close> gives to \<open>mergeMap\<close>. An array or iterable gives one clone of
  the mappings for each item; a single value gives one clone; \<open>null\<close>, as an item or as
  the value, binds \<open>rdf.createUnbound()\<close>. An error thrown by \<open>evaluate\<close> is caught and
  the callback returns the empty stage.
\<close>

definition bind_callback ::
  "CompiledExpression \<Rightarrow> string \<Rightarrow> rdf_term Bindings \<Rightarrow> rdf_term Bindings stage"
where
  "bind_callback expr variable bindings =
     (case expr bindings of
        (Inl e, b1) \<Rightarrow> engine_empty
      | (Inr (Terms ts r), b1) \<Rightarrow>
          Stage (map (\<lambda>term. case term of
                               None \<Rightarrow> set_bindings (clone b1) variable Unbound
                             | Some t \<Rightarrow> set_bindings (clone b1) variable t) ts) r
      | (Inr Null, b1) \<Rightarrow> engine_of (set_bindings (clone b1) variable Unbound)
      | (Inr (Term t), b1) \<Rightarrow> engine_of (set_bindings (clone b1) variable t))"

definition bind ::
  "tables \<Rightarrow> rdf_term Bindings stage \<Rightarrow> string \<Rightarrow> expression \<Rightarrow> CustomFunctions
     \<Rightarrow> error + rdf_term Bindings stage"
where
  "bind T src variable expression customFunctions =
     (case SPARQLExpression T customFunctions expression of
        Inl e \<Rightarrow> Inl e
      | Inr expr \<Rightarrow> Inr (engine_mergeMap src (bind_callback expr variable)))"

section \<open>FILTER\<close>



section \<open>Graphs and the execution context\<close>

text \<open>
  Modelled from the spec: the graph interface (\<open>rdf/graph\<close> is not among the sources).
  Section 4.2: \<open>find\<close> gives the triples that match a pattern, \<open>evalBGP\<close> the mappings of
  a basic graph pattern, and \<open>capabilities\<close> is a bitset whose \<open>UNION\<close> bit enables the
  bound join. The two methods are fields of the backend; the context they receive is
  passed on unchanged and is left out.
\<close>

datatype GRAPH_CAPABILITY = UNION | OTHER_CAPABILITY string

record graph =
  graph_iri :: rdf_term
  capabilities :: "GRAPH_CAPABILITY \<Rightarrow> bool"
  graph_find :: "triple \<Rightarrow> triple stage"
  evalBGP :: "triple list \<Rightarrow> rdf_term Bindings stage"

definition isCapable :: "graph \<Rightarrow> GRAPH_CAPABILITY \<Rightarrow> bool" where
  "isCapable g token = capabilities g token"

text \<open>
  Modelled from the spec: the execution context (\<open>engine/context\<close> is not among the
  sources). Section 3: a bag that holds the active default and named graphs, the query
  hints, the current cache pointer and a set of properties, among them the prefix map,
  the flag for LIMIT/OFFSET and option flags such as \<open>FORCE_INDEX_JOIN\<close>. The cache is a
  shared object: the field holds its state.
\<close>

datatype context_symbol = PREFIXES | HAS_LIMIT_OFFSET | FORCE_INDEX_JOIN

datatype context_property = Flag bool | PrefixMap "(string \<times> string) list"

record 'c ExecutionContext =
  context_properties :: "(context_symbol \<times> context_property) list"
  defaultGraphs :: "rdf_term list"
  namedGraphs :: "rdf_term list"
  hints :: "string list"
  cache :: "'c option"

definition context_setProperty ::
  "'c ExecutionContext \<Rightarrow> context_symbol \<Rightarrow> context_property \<Rightarrow> 'c ExecutionContext"
where
  "context_setProperty this k v =
     this\<lparr>context_properties := AList.update k v (context_properties this)\<rparr>"

definition context_getProperty :: "'c ExecutionContext \<Rightarrow> context_symbol \<Rightarrow> context_property option" where
  "context_getProperty this k = map_of (context_properties this) k"

definition context_hasProperty :: "'c ExecutionContext \<Rightarrow> context_symbol \<Rightarrow> bool" where
  "context_hasProperty this k = (map_of (context_properties this) k \<noteq> None)"

definition cachingEnabled :: "'c ExecutionContext \<Rightarrow> bool" where
  "cachingEnabled this = (cache this \<noteq> None)"

text \<open>
  Modelled from the spec: \<open>clone\<close>, as the plan builder uses it for the context of a
  child: a new context with the properties, the graphs, the hints and the cache pointer
  of this one. What is set on the clone afterwards is not set on the original.
\<close>

definition context_clone :: "'c ExecutionContext \<Rightarrow> 'c ExecutionContext" where
  "context_clone this =
     \<lparr>context_properties = context_properties this, defaultGraphs = defaultGraphs this,
      namedGraphs = namedGraphs this, hints = hints this, cache = cache this\<rparr>"

section \<open>Joins of a triple pattern (index-join.ts)\<close>

text \<open>
  A plain object with string keys is the list of its entries in insertion order. lodash
  \<open>pickBy\<close> keeps the entries that the predicate accepts; \<open>mapKeys\<close> renames the keys, a
  later entry overwriting an earlier one of the same new key.
\<close>

definition triple_entries :: "triple \<Rightarrow> (string \<times> rdf_term) list" where
  "triple_entries t = [(''subject'', subject t), (''predicate'', predicate t), (''object'', object t)]"

definition triple_field :: "triple \<Rightarrow> string \<Rightarrow> rdf_term option" where
  "triple_field t k = map_of (triple_entries t) k"

definition pickBy :: "(string \<times> 'a) list \<Rightarrow> ('a \<Rightarrow> string \<Rightarrow> bool) \<Rightarrow> (string \<times> 'a) list" where
  "pickBy obj p = filter (\<lambda>(k, v). p v k) obj"

definition mapKeys :: "(string \<times> 'a) list \<Rightarrow> ('a \<Rightarrow> string \<Rightarrow> string) \<Rightarrow> (string \<times> 'a) list" where
  "mapKeys obj f = foldl (\<lambda>result (k, v). AList.update (f v k) v result) [] obj"

text \<open>
  \<open>BindingBase.fromMapping\<close>: a variable, blank node, quad or property path as a value is
  a \<open>SyntaxError\<close>. (The fields of a triple a backend returns are populated, so the test
  \<open>!value\<close> never holds.)
\<close>

fun fromMapping_loop ::
  "rdf_term Bindings \<Rightarrow> (string \<times> rdf_term) list \<Rightarrow> error + rdf_term Bindings"
where
  "fromMapping_loop res [] = Inr res"
| "fromMapping_loop res ((k, v) # rest) =
     (if isVariable v \<or> isBlankNode v \<or> isQuad v \<or> isPropertyPath v then Inl SyntaxError
      else fromMapping_loop (set_bindings res k v) rest)"

definition fromMapping :: "(string \<times> rdf_term) list \<Rightarrow> error + rdf_term Bindings" where
  "fromMapping vs = fromMapping_loop empty_bindings vs"

text \<open>The name of the variable at a position of the bounded pattern; \<open>undefined\<close> as a key reads \<open>undefined\<close>.\<close>

definition position_key :: "triple \<Rightarrow> string \<Rightarrow> string" where
  "position_key boundedPattern k =
     (case triple_field boundedPattern k of
        Some t \<Rightarrow> (case term_value t of Some n \<Rightarrow> n | None \<Rightarrow> ''undefined'')
      | None \<Rightarrow> ''undefined'')"

definition position_isVariable :: "triple \<Rightarrow> string \<Rightarrow> bool" where
  "position_isVariable boundedPattern k =
     (case triple_field boundedPattern k of Some t \<Rightarrow> isVariable t | None \<Rightarrow> False)"

definition indexJoin_item :: "rdf_term Bindings \<Rightarrow> triple \<Rightarrow> triple \<Rightarrow> error + rdf_term Bindings" where
  "indexJoin_item bindings boundedPattern item =
     (let temp = pickBy (triple_entries item) (\<lambda>v k. position_isVariable boundedPattern k);
          temp1 = mapKeys temp (\<lambda>v k. position_key boundedPattern k)
      in case fromMapping temp1 of
           Inl e \<Rightarrow> Inl e
         | Inr m \<Rightarrow> Inr (union_bindings m bindings))"

definition indexJoin :: "rdf_term Bindings stage \<Rightarrow> triple \<Rightarrow> graph \<Rightarrow> rdf_term Bindings stage" where
  "indexJoin src pattern g =
     engine_mergeMap src (\<lambda>bindings.
       let boundedPattern = bound bindings pattern
       in engine_map (graph_find g boundedPattern) (indexJoin_item bindings boundedPattern))"

text \<open>
  The graph of the repository's tests (\<open>tests/utils.js\<close>, \<open>N3Graph\<close>). \<open>formatTriplePattern\<close>
  turns every variable of the pattern into \<open>null\<close>, and \<open>find\<close> asks the N3 store for the
  quads whose subject, predicate and object equal the components that are not \<open>null\<close>.
  The store is the list of its triples; the N3 store gives the matches in the order of
  its index, which is not modelled, and the examples ask for patterns that one triple
  matches.
\<close>

definition formatTriplePattern :: "triple \<Rightarrow> rdf_term option \<times> rdf_term option \<times> rdf_term option" where
  "formatTriplePattern t =
     (if \<not> isVariable (subject t) then Some (subject t) else None,
      if \<not> isVariable (predicate t) then Some (predicate t) else None,
      if \<not> isVariable (object t) then Some (object t) else None)"

definition getQuads ::
  "triple list \<Rightarrow> rdf_term option \<Rightarrow> rdf_term option \<Rightarrow> rdf_term option \<Rightarrow> triple list"
where
  "getQuads store s p ob =
     filter (\<lambda>q. (s = None \<or> s = Some (subject q)) \<and> (p = None \<or> p = Some (predicate q))
                \<and> (ob = None \<or> ob = Some (object q))) store"

definition N3Graph_find :: "triple list \<Rightarrow> triple \<Rightarrow> triple stage" where
  "N3Graph_find store t =
     (case formatTriplePattern t of (s, p, ob) \<Rightarrow> engine_from (getQuads store s p ob))"

text \<open>
  Modelled from the spec: the default \<open>evalBGP\<close> of a graph (\<open>rdf/graph\<close> is not among the
  sources). Section 4.2: iterate the leftmost pattern with \<open>find\<close>, substitute every
  match, recurse; that is, start from the empty mapping and join the patterns from the
  left, each with \<open>indexJoin\<close>. (\<open>indexJoin\<close> reads only the \<open>find\<close> of the graph it is
  given.) \<open>N3Graph\<close> inherits it, and has no \<open>evalUnion\<close>.
\<close>

definition default_evalBGP :: "graph \<Rightarrow> triple list \<Rightarrow> rdf_term Bindings stage" where
  "default_evalBGP g bgp = foldl (\<lambda>iter t. indexJoin iter t g) (engine_of empty_bindings) bgp"

definition N3Graph :: "triple list \<Rightarrow> graph" where
  "N3Graph store =
     (let base = \<lparr>graph_iri = NamedNode ''http://example.org/default'',
                  capabilities = (\<lambda>token. False),
                  graph_find = N3Graph_find store,
                  evalBGP = (\<lambda>bgp. engine_empty)\<rparr>
      in base\<lparr>evalBGP := default_evalBGP base\<rparr>)"

section \<open>The stage of basic graph patterns (bgp-stage-builder.ts)\<close>

text \<open>
  \<open>mergeMap\<close> with a callback that reads and changes a state (here the context, whose
  cache the callback may fill): the callbacks run in the order of the inputs, each on
  the state the previous one left.
\<close>

fun mergeMap_state_items :: "('a \<Rightarrow> 's \<Rightarrow> 'b stage \<times> 's) \<Rightarrow> 'a list \<Rightarrow> 's \<Rightarrow> 'b stage \<times> 's" where
  "mergeMap_state_items f [] st = (engine_empty, st)"
| "mergeMap_state_items f (x # xs) st =
     (case f x st of (out, st1) \<Rightarrow>
        (case failure out of
           Some e \<Rightarrow> (out, st1)
         | None \<Rightarrow> (case mergeMap_state_items f xs st1 of
                       (rest_out, st2) \<Rightarrow> (stage_append out rest_out, st2))))"

definition engine_mergeMap_state ::
  "'a stage \<Rightarrow> ('a \<Rightarrow> 's \<Rightarrow> 'b stage \<times> 's) \<Rightarrow> 's \<Rightarrow> 'b stage \<times> 's"
where
  "engine_mergeMap_state src f st =
     (case mergeMap_state_items f (items src) st of
        (out, st1) \<Rightarrow> (stage_append out (Stage [] (failure src)), st1))"

text \<open>
  \<open>bgpEvaluation\<close>: for each input mapping the patterns are bounded and handed to
  \<open>evaluation.cacheEvalBGP\<close> with the cache of the context when the context has one, to
  \<open>graph.evalBGP\<close> otherwise; every result is united with the input mapping.
  \<open>cacheEvalBGP\<close> is not among the sources and is a parameter: it returns a stage and
  leaves the cache in a new state.
\<close>

type_synonym 'c cached_evaluation =
  "triple list \<Rightarrow> graph \<Rightarrow> 'c \<Rightarrow> 'c ExecutionContext \<Rightarrow> rdf_term Bindings stage \<times> 'c"

definition bgpEvaluation_callback ::
  "'c cached_evaluation \<Rightarrow> triple list \<Rightarrow> graph \<Rightarrow> rdf_term Bindings \<Rightarrow> 'c ExecutionContext
     \<Rightarrow> rdf_term Bindings stage \<times> 'c ExecutionContext"
where
  "bgpEvaluation_callback cacheEval bgp g bindings ctx =
     (let boundedBGP = map (bound bindings) bgp;
          join = (\<lambda>iterator. engine_map iterator (\<lambda>item. Inr (union_bindings item bindings)))
      in if cachingEnabled ctx then
           (case cache ctx of
              Some c \<Rightarrow> (case cacheEval boundedBGP g c ctx of
                           (iterator, c1) \<Rightarrow> (join iterator, ctx\<lparr>cache := Some c1\<rparr>))
            | None \<Rightarrow> (Stage [] (Some TypeError), ctx))
         else (join (evalBGP g boundedBGP), ctx))"

definition bgpEvaluation ::
  "'c cached_evaluation \<Rightarrow> rdf_term Bindings stage \<Rightarrow> triple list \<Rightarrow> graph
     \<Rightarrow> 'c ExecutionContext \<Rightarrow> rdf_term Bindings stage \<times> 'c ExecutionContext"
where
  "bgpEvaluation cacheEval src bgp g ctx =
     engine_mergeMap_state src (bgpEvaluation_callback cacheEval bgp g) ctx"

text \<open>
  \<open>_buildIterator\<close>: the bound join when the graph is capable of \<open>UNION\<close> and the context
  has no property \<open>FORCE_INDEX_JOIN\<close>, \<open>bgpEvaluation\<close> otherwise. \<open>boundJoin\<close> is not
  among the sources and is a parameter.
\<close>

definition buildIterator ::
  "(rdf_term Bindings stage \<Rightarrow> triple list \<Rightarrow> graph \<Rightarrow> 'c ExecutionContext
      \<Rightarrow> rdf_term Bindings stage \<times> 'c ExecutionContext)
   \<Rightarrow> 'c cached_evaluation \<Rightarrow> rdf_term Bindings stage \<Rightarrow> graph \<Rightarrow> triple list
   \<Rightarrow> 'c ExecutionContext \<Rightarrow> rdf_term Bindings stage \<times> 'c ExecutionContext"
where
  "buildIterator boundJoin cacheEval src g patterns ctx =
     (if isCapable g UNION \<and> \<not> context_hasProperty ctx FORCE_INDEX_JOIN
      then boundJoin src patterns g ctx
      else bgpEvaluation cacheEval src patterns g ctx)"

text \<open>
  The index-nested-loop strategy of claim C6, written from its words, to compare
  \<open>bgpEvaluation\<close> with. To substitute a pattern is to put, for every variable that the
  mapping binds, the term it is bound to. To delegate is to give the substituted patterns
  to \<open>G.evalBGP\<close>, or to the cache when the context has one; the cache is left as the
  evaluation leaves it. The loop takes the input mappings in order: it substitutes the
  patterns with the mapping, delegates, and unites every mapping found with the input
  mapping; an evaluation that fails ends the loop, and the failure of the source ends
  the result.
\<close>

definition substitute_term :: "rdf_term Bindings \<Rightarrow> rdf_term \<Rightarrow> rdf_term" where
  "substitute_term m t =
     (case t of
        Variable v \<Rightarrow> (case map_of (content m) v of Some x \<Rightarrow> x | None \<Rightarrow> t)
      | _ \<Rightarrow> t)"

definition substitute :: "rdf_term Bindings \<Rightarrow> triple \<Rightarrow> triple" where
  "substitute m t =
     \<lparr>subject = substitute_term m (subject t), predicate = substitute_term m (predicate t),
      object = substitute_term m (object t)\<rparr>"

definition delegate_evaluation ::
  "'c cached_evaluation \<Rightarrow> graph \<Rightarrow> triple list \<Rightarrow> 'c ExecutionContext
     \<Rightarrow> rdf_term Bindings stage \<times> 'c ExecutionContext"
where
  "delegate_evaluation cacheEval g patterns K =
     (case cache K of
        None \<Rightarrow> (evalBGP g patterns, K)
      | Some c \<Rightarrow> (case cacheEval patterns g c K of (found, c1) \<Rightarrow> (found, K\<lparr>cache := Some c1\<rparr>)))"

fun index_nested_loop ::
  "'c cached_evaluation \<Rightarrow> graph \<Rightarrow> triple list \<Rightarrow> rdf_term Bindings list \<Rightarrow> error option
     \<Rightarrow> 'c ExecutionContext \<Rightarrow> rdf_term Bindings stage \<times> 'c ExecutionContext"
where
  "index_nested_loop cacheEval g patterns [] r K = (Stage [] r, K)"
| "index_nested_loop cacheEval g patterns (m # ms) r K =
     (case delegate_evaluation cacheEval g (map (substitute m) patterns) K of
        (Stage found (Some e), K1) \<Rightarrow> (Stage (map (\<lambda>item. union_bindings item m) found) (Some e), K1)
      | (Stage found None, K1) \<Rightarrow>
          (case index_nested_loop cacheEval g patterns ms r K1 of
             (Stage rest r1, K2) \<Rightarrow> (Stage (map (\<lambda>item. union_bindings item m) found @ rest) r1, K2)))"

section \<open>The cached evaluation of a BGP\<close>

text \<open>
  Modelled from the spec: \<open>evaluation.cacheEvalBGP\<close> and the cache (\<open>utils/evaluation\<close> and
  \<open>engine/cache\<close> are not among the sources). Section 4.5: when the enclosing query has no
  LIMIT/OFFSET, the stage computes \<open>findSubset\<close>; if the subset is not empty it reads the
  cached mappings and joins them with the evaluation of the missing patterns; otherwise
  it evaluates the full BGP, streams every mapping into \<open>update\<close> and then calls
  \<open>commit\<close>. LIMIT/OFFSET disables both read and write. The operations of the cache, and
  the join with the missing patterns, are parameters.
\<close>

record 'c cache_operations =
  findSubset :: "'c \<Rightarrow> triple list \<Rightarrow> rdf_term \<Rightarrow> triple list \<times> triple list"
  cached :: "'c \<Rightarrow> triple list \<Rightarrow> rdf_term \<Rightarrow> rdf_term Bindings list"
  update :: "'c \<Rightarrow> triple list \<Rightarrow> rdf_term \<Rightarrow> rdf_term Bindings \<Rightarrow> 'c"
  commit :: "'c \<Rightarrow> triple list \<Rightarrow> rdf_term \<Rightarrow> 'c"
  join_missing :: "rdf_term Bindings stage \<Rightarrow> triple list \<Rightarrow> rdf_term Bindings stage"

definition has_limit_offset :: "'c ExecutionContext \<Rightarrow> bool" where
  "has_limit_offset ctx = (context_getProperty ctx HAS_LIMIT_OFFSET = Some (Flag True))"

definition cacheEvalBGP :: "'c cache_operations \<Rightarrow> 'c cached_evaluation" where
  "cacheEvalBGP ops patterns g c ctx =
     (if has_limit_offset ctx then (evalBGP g patterns, c)
      else (case findSubset ops c patterns (graph_iri g) of
              ([], missing) \<Rightarrow>
                (let out = evalBGP g patterns
                 in (out, commit ops (foldl (\<lambda>c1 b. update ops c1 patterns (graph_iri g) b) c (items out))
                            patterns (graph_iri g)))
            | (subsetBGP, missing) \<Rightarrow>
                (join_missing ops (engine_from (cached ops c subsetBGP (graph_iri g))) missing, c)))"

section \<open>Full text search (bgp-stage-builder.ts)\<close>

text \<open>
  A JavaScript number, as far as \<open>_buildFullTextSearchIterator\<close> looks at it: \<open>NaN\<close>, an
  infinity, or a finite number, which is a rational. Numbers are only compared, never
  computed with, so no rounding enters. \<open>Number(s)\<close> and \<open>String.toLowerCase\<close> belong to
  the language and are parameters.
\<close>

datatype number = NaN | NegInfinity | Finite rat | PosInfinity

fun isNaN :: "number \<Rightarrow> bool" where
  "isNaN NaN = True"
| "isNaN n = False"

fun isInteger :: "number \<Rightarrow> bool" where
  "isInteger (Finite q) = (of_int (floor q) = q)"
| "isInteger n = False"

fun greater :: "number \<Rightarrow> number \<Rightarrow> bool" where
  "greater NaN b = False"
| "greater a NaN = False"
| "greater NegInfinity b = False"
| "greater a PosInfinity = False"
| "greater PosInfinity b = True"
| "greater a NegInfinity = True"
| "greater (Finite p) (Finite q) = (q < p)"

definition negative :: "number \<Rightarrow> bool" where
  "negative n = greater (Finite 0) n"

record javascript =
  Number :: "string \<Rightarrow> number"
  lowerCase :: "string \<Rightarrow> string"

text \<open>\<open>s.split(' ')\<close>: the pieces of \<open>s\<close> between single spaces.\<close>

fun split_spaces :: "string \<Rightarrow> string list" where
  "split_spaces [] = [[]]"
| "split_spaces (c # cs) =
     (if c = CHR '' '' then [] # split_spaces cs
      else (case split_spaces cs of
              piece # pieces \<Rightarrow> (c # piece) # pieces
            | [] \<Rightarrow> [[c]]))"

text \<open>
  The magic predicates are IRIs of the namespace \<open>SES\<close> (\<open>utils/namespace\<close> is not among the
  sources; the namespace is a parameter).
\<close>

definition SES :: "string \<Rightarrow> string \<Rightarrow> string" where
  "SES ns name = ns @ name"

record search_parameters =
  keywords_fts :: "string list"
  matchAll :: bool
  minScore :: "number option"
  maxScore :: "number option"
  minRank :: "number option"
  maxRank :: "number option"
  addScore :: bool
  addRank :: bool
  scoreVariable :: "rdf_term option"
  rankVariable :: "rdf_term option"

definition default_parameters :: search_parameters where
  "default_parameters =
     \<lparr>keywords_fts = [], matchAll = False, minScore = None, maxScore = None, minRank = None,
      maxRank = None, addScore = False, addRank = False, scoreVariable = None,
      rankVariable = None\<rparr>"

text \<open>
  The body of \<open>magicTriples.forEach\<close>: the subject must be the query variable, and then
  the predicate decides. The lexical form a literal is read from is its \<open>.value\<close>.
\<close>

definition object_value :: "triple \<Rightarrow> string" where
  "object_value t = (case term_value (object t) of Some v \<Rightarrow> v | None \<Rightarrow> [])"

definition magicTriple ::
  "javascript \<Rightarrow> string \<Rightarrow> string \<Rightarrow> search_parameters \<Rightarrow> triple \<Rightarrow> error + search_parameters"
where
  "magicTriple js ns queryVariable st t =
     (if subject t \<noteq> Variable queryVariable then Inl SyntaxError
      else if term_value (predicate t) = Some (SES ns ''search'') then
        (if \<not> isLiteral (object t) then Inl SyntaxError
         else Inr (st\<lparr>keywords_fts := split_spaces (object_value t)\<rparr>))
      else if term_value (predicate t) = Some (SES ns ''matchAllTerms'') then
        (case term_value (object t) of
           None \<Rightarrow> Inl TypeError
         | Some v \<Rightarrow> Inr (st\<lparr>matchAll := (lowerCase js v = ''true'' \<or> lowerCase js v = ''1'')\<rparr>))
      else if term_value (predicate t) = Some (SES ns ''minRelevance'') then
        (if \<not> isLiteral (object t) then Inl SyntaxError
         else if isNaN (Number js (object_value t)) then Inl SyntaxError
         else Inr (st\<lparr>minScore := Some (Number js (object_value t))\<rparr>))
      else if term_value (predicate t) = Some (SES ns ''maxRelevance'') then
        (if \<not> isLiteral (object t) then Inl SyntaxError
         else if isNaN (Number js (object_value t)) then Inl SyntaxError
         else Inr (st\<lparr>maxScore := Some (Number js (object_value t))\<rparr>))
      else if term_value (predicate t) = Some (SES ns ''minRank'') then
        (if \<not> isLiteral (object t) then Inl SyntaxError
         else if isNaN (Number js (object_value t)) \<or> \<not> isInteger (Number js (object_value t))
                 \<or> negative (Number js (object_value t)) then Inl SyntaxError
         else Inr (st\<lparr>minRank := Some (Number js (object_value t))\<rparr>))
      else if term_value (predicate t) = Some (SES ns ''maxRank'') then
        (if \<not> isLiteral (object t) then Inl SyntaxError
         else if isNaN (Number js (object_value t)) \<or> \<not> isInteger (Number js (object_value t))
                 \<or> negative (Number js (object_value t)) then Inl SyntaxError
         else Inr (st\<lparr>maxRank := Some (Number js (object_value t))\<rparr>))
      else if term_value (predicate t) = Some (SES ns ''relevance'') then
        (if \<not> isVariable (object t) then Inl SyntaxError
         else Inr (st\<lparr>addScore := True, scoreVariable := Some (object t)\<rparr>))
      else if term_value (predicate t) = Some (SES ns ''rank'') then
        (if \<not> isVariable (object t) then Inl SyntaxError
         else Inr (st\<lparr>addRank := True, rankVariable := Some (object t),
                       minRank := (if minRank st = None then Some (Finite 0) else minRank st)\<rparr>))
      else Inr st)"

fun magicTriples_forEach ::
  "javascript \<Rightarrow> string \<Rightarrow> string \<Rightarrow> search_parameters \<Rightarrow> triple list \<Rightarrow> error + search_parameters"
where
  "magicTriples_forEach js ns queryVariable st [] = Inr st"
| "magicTriples_forEach js ns queryVariable st (t # ts) =
     (case magicTriple js ns queryVariable st t of
        Inl e \<Rightarrow> Inl e
      | Inr st1 \<Rightarrow> magicTriples_forEach js ns queryVariable st1 ts)"

definition exceeds :: "number option \<Rightarrow> number option \<Rightarrow> bool" where
  "exceeds lo hi = (case (lo, hi) of (Some a, Some b) \<Rightarrow> greater a b | _ \<Rightarrow> False)"

text \<open>
  \<open>_buildFullTextSearchIterator\<close>, up to the stage it returns: the parameters are computed
  from the magic triples, the two pairs of bounds are checked, and the stage then calls
  \<open>graph.fullTextSearch\<close> with the parameters for every input mapping. The result is the
  error thrown, or the parameters of the stage.
\<close>

definition buildFullTextSearchIterator ::
  "javascript \<Rightarrow> string \<Rightarrow> string \<Rightarrow> triple list \<Rightarrow> error + search_parameters"
where
  "buildFullTextSearchIterator js ns queryVariable magicTriples =
     (case magicTriples_forEach js ns queryVariable default_parameters magicTriples of
        Inl e \<Rightarrow> Inl e
      | Inr st \<Rightarrow>
          (if exceeds (minScore st) (maxScore st) then Inl SyntaxError
           else if exceeds (minRank st) (maxRank st) then Inl SyntaxError
           else Inr st))"

section \<open>Graph patterns and queries (sparqljs)\<close>

text \<open>
  The patterns of a WHERE clause by their \<open>type\<close>, and the fields of a query that
  \<open>_buildQueryPlan\<close> reads up to the WHERE clause, with the template that the rewriting
  of DESCRIBE writes. \<open>limit\<close> and \<open>offset\<close> are \<open>None\<close> when the query object has no such
  key. The variables of a DESCRIBE query are wildcards, IRIs or variables.
\<close>

datatype describe_variable = Wildcard | Resource rdf_term

datatype query_type = SELECT | CONSTRUCT | ASK | DESCRIBE

datatype pattern =
    BgpPattern "triple list"
  | GraphPattern rdf_term "pattern list"
  | ValuesPattern "(string \<times> rdf_term) list list"
  | FilterPattern expression
  | GroupPattern "pattern list"
  | OptionalPattern "pattern list"
  | UnionPattern "pattern list"
  | MinusPattern "pattern list"
  | ServicePattern rdf_term "pattern list" bool
  | BindPattern string expression
  | QueryPattern query
and query =
    Query (queryType: query_type)
          (prefixes: "(string \<times> string) list")
          (queryVariables: "describe_variable list")
          (fromClause: "(rdf_term list \<times> rdf_term list) option")
          (whereClause: "pattern list option")
          (template: "triple list option")
          (limit: "nat option")
          (offset: "nat option")

fun isBgp :: "pattern \<Rightarrow> bool" where
  "isBgp (BgpPattern ts) = True"
| "isBgp g = False"

fun isValues :: "pattern \<Rightarrow> bool" where
  "isValues (ValuesPattern rows) = True"
| "isValues g = False"

section \<open>The plan of a query (plan-builder.ts)\<close>

text \<open>
  The rewriting of a DESCRIBE query into a CONSTRUCT query. \<open>str\<close> is the text that a
  template string gives for a variable of the query. The query that is built has the
  keys \<open>prefixes\<close>, \<open>from\<close>, \<open>queryType\<close>, \<open>template\<close>, \<open>type\<close> and \<open>where\<close>, and no other.
\<close>

definition describe_triple :: "(describe_variable \<Rightarrow> string) \<Rightarrow> describe_variable \<Rightarrow> triple" where
  "describe_triple str v =
     \<lparr>subject = (case v of
                   Wildcard \<Rightarrow> Variable (''?subj__describe__'' @ str v)
                 | Resource t \<Rightarrow> t),
      predicate = Variable (''?pred__describe__'' @ str v),
      object = Variable (''?obj__describe__'' @ str v)\<rparr>"

definition describe_construct :: "(describe_variable \<Rightarrow> string) \<Rightarrow> query \<Rightarrow> query" where
  "describe_construct str q =
     (let triples = map (describe_triple str) (queryVariables q)
      in Query CONSTRUCT (prefixes q) [] (fromClause q)
           (Some ((case whereClause q of Some w \<Rightarrow> w | None \<Rightarrow> []) @ [BgpPattern triples]))
           (Some triples) None None)"

text \<open>
  \<open>_buildQueryPlan\<close> up to the WHERE clause: the context as it is when the WHERE clause
  is built, and the groups of the clause (\<open>query.where ?? []\<close>).
\<close>

function buildQueryPlan_where ::
  "(describe_variable \<Rightarrow> string) \<Rightarrow> query \<Rightarrow> 'c ExecutionContext
     \<Rightarrow> 'c ExecutionContext \<times> pattern list"
where
  "buildQueryPlan_where str q ctx =
     (let ctx1 = context_setProperty ctx PREFIXES (PrefixMap (prefixes q))
      in if queryType q = DESCRIBE then buildQueryPlan_where str (describe_construct str q) ctx1
         else
           (let ctx2 = context_setProperty ctx1 HAS_LIMIT_OFFSET
                         (Flag (limit q \<noteq> None \<or> offset q \<noteq> None));
                ctx3 = (case fromClause q of
                          Some (dflt, named) \<Rightarrow> ctx2\<lparr>defaultGraphs := dflt, namedGraphs := named\<rparr>
                        | None \<Rightarrow> ctx2)
            in (ctx3, (case whereClause q of Some w \<Rightarrow> w | None \<Rightarrow> []))))"
  by pat_completeness auto
termination
  by (relation "measure (\<lambda>(str, q, ctx). if queryType q = DESCRIBE then 1 else 0)")
     (auto simp: describe_construct_def Let_def)

text \<open>
  \<open>_buildWhere\<close>. The groups are sorted with lodash \<open>sortBy\<close>, a stable sort, by the rank
  below. With a VALUES clause among them the sorted groups go to \<open>_buildValues\<close>.
  Otherwise the loop merges a BGP into the last new group when the group before it was
  a BGP, and \<open>_buildGroup\<close> is folded over the new groups. The result is the call that
  ends \<open>_buildWhere\<close>, with the groups it is given. (The loop writes the merged triples
  into the first BGP object of a run, an object of the caller's list; the model returns
  the new groups and leaves the caller's list out.)
\<close>

fun group_rank :: "pattern \<Rightarrow> nat" where
  "group_rank (GraphPattern name ps) = (if isVariable name then 5 else 0)"
| "group_rank (BgpPattern ts) = 0"
| "group_rank (ValuesPattern rows) = 3"
| "group_rank (FilterPattern e) = 4"
| "group_rank g = 1"

definition sortBy :: "'a list \<Rightarrow> ('a \<Rightarrow> nat) \<Rightarrow> 'a list" where
  "sortBy xs f = sort_key f xs"

fun merge_loop :: "pattern list \<Rightarrow> pattern list \<Rightarrow> pattern option \<Rightarrow> error + pattern list" where
  "merge_loop [] newGroups prec = Inr newGroups"
| "merge_loop (g # rest) newGroups prec =
     (if isBgp g \<and> (case prec of None \<Rightarrow> False | Some p \<Rightarrow> isBgp p) then
        (if newGroups = [] then Inl TypeError
         else (case (last newGroups, g) of
                 (BgpPattern ts, BgpPattern ts1) \<Rightarrow>
                   merge_loop rest (butlast newGroups @ [BgpPattern (ts @ ts1)]) (Some g)
               | _ \<Rightarrow> Inl TypeError))
      else merge_loop rest (newGroups @ [g]) (Some g))"

datatype where_plan = BuildValues "pattern list" | BuildGroups "pattern list"

definition buildWhere :: "pattern list \<Rightarrow> error + where_plan" where
  "buildWhere groups =
     (let sorted_groups = sortBy groups group_rank
      in if list_ex isValues sorted_groups then Inr (BuildValues sorted_groups)
         else (case merge_loop sorted_groups [] None of
                 Inl e \<Rightarrow> Inl e
               | Inr newGroups \<Rightarrow> Inr (BuildGroups newGroups)))"

text \<open>
  The merge of claim C7, written from its words: every run of consecutive BGP groups
  becomes one BGP whose triples are the triples of the run, in order.
\<close>

fun merge_consecutive_bgps :: "pattern list \<Rightarrow> pattern list" where
  "merge_consecutive_bgps [] = []"
| "merge_consecutive_bgps (g # rest) =
     (case (g, merge_consecutive_bgps rest) of
        (BgpPattern ts, BgpPattern ts1 # merged) \<Rightarrow> BgpPattern (ts @ ts1) # merged
      | (_, merged) \<Rightarrow> g # merged)"

text \<open>
  \<open>_buildGroup\<close>, for a BGP and for a sub-query. The child context is a clone of the
  context. A BGP without property paths goes with its triples and the child context to
  the stage builder of BGPs; a sub-query re-enters \<open>_buildQueryPlan\<close> with the child
  context, which gives the context and the groups of its own WHERE clause. The other
  groups, and a BGP with a property path, go through code that is not among the sources.
\<close>

datatype 'c group_plan =
    ExecuteBGP "triple list" "'c ExecutionContext"
  | SubQueryWhere "'c ExecutionContext" "pattern list"
  | OtherGroup

definition buildGroup ::
  "(describe_variable \<Rightarrow> string) \<Rightarrow> pattern \<Rightarrow> 'c ExecutionContext \<Rightarrow> 'c group_plan"
where
  "buildGroup str a_group ctx =
     (let childContext = context_clone ctx
      in case a_group of
           BgpPattern triples \<Rightarrow>
             (if list_ex (\<lambda>t. isPropertyPath (predicate t)) triples then OtherGroup
              else ExecuteBGP triples childContext)
         | QueryPattern q \<Rightarrow>
             (case buildQueryPlan_where str q childContext of
                (K, groups) \<Rightarrow> SubQueryWhere K groups)
         | _ \<Rightarrow> OtherGroup)"

section \<open>The cache of the plan builder (plan-builder.ts)\<close>

text \<open>
  \<open>LRUBGPCache maxSize maxAge\<close> stands for \<open>new LRUBGPCache(maxSize, maxAge)\<close>; a cache
  instance supplied by the caller is \<open>CustomCache\<close>.
\<close>

datatype 'c BGPCache = LRUBGPCache nat nat | CustomCache 'c

record 'c PlanBuilder =
  currentCache :: "'c BGPCache option"

definition useCache :: "'c BGPCache option \<Rightarrow> 'c PlanBuilder \<Rightarrow> 'c PlanBuilder" where
  "useCache customCache this =
     (case customCache of
        None \<Rightarrow> this\<lparr>currentCache := Some (LRUBGPCache 500 (1200 * 60 * 60))\<rparr>
      | Some c \<Rightarrow> this\<lparr>currentCache := Some c\<rparr>)"

definition disableCache :: "'c PlanBuilder \<Rightarrow> 'c PlanBuilder" where
  "disableCache this = this\<lparr>currentCache := None\<rparr>"

text \<open>
  The design defaults of the specification's section 4.5, to compare with: 500 entries,
  and 20 minutes written in the unit a cache may count its age in.
\<close>

datatype time_unit = Milliseconds | Seconds | Minutes

fun twenty_minutes :: "time_unit \<Rightarrow> nat" where
  "twenty_minutes Milliseconds = 20 * 60 * 1000"
| "twenty_minutes Seconds = 20 * 60"
| "twenty_minutes Minutes = 20"

text \<open>
  The reading of claim C9: two mappings are the same when they have the same variables and
  the terms their values stand for are equal. \<open>deref\<close> gives the term an object reference
  points to.
\<close>

definition same_mapping :: "('v \<Rightarrow> rdf_term) \<Rightarrow> 'v Bindings \<Rightarrow> 'v Bindings \<Rightarrow> bool" where
  "same_mapping deref m1 m2 =
     (set (variables m1) = set (variables m2)
      \<and> list_all (\<lambda>v. map_option deref (get m1 v) = map_option deref (get m2 v)) (variables m1))"

section \<open>Auxiliary notions and concrete inputs\<close>

text \<open>A compiled expression that leaves the variables and values of the mappings as they are.\<close>

definition keeps_content :: "CompiledExpression \<Rightarrow> bool" where
  "keeps_content c = (\<forall>b. content (snd (c b)) = content b)"

text \<open>
  Concrete inputs on which the theorems below are tried. The operator tables are empty,
  and three functions are registered by the user: one that always throws (the function
  of the repository's test of BIND), one that throws unless its argument is a term, and
  one that returns an array of two literals.
\<close>

definition example_tables :: tables where
  "example_tables =
     \<lparr>SPARQL_OPERATIONS = Map.empty, SPARQL_AGGREGATES = Map.empty,
      CUSTOM_AGGREGATES = Map.empty, CUSTOM_OPERATIONS = Map.empty,
      toLowerCase = (\<lambda>s. s), toN3 = (\<lambda>t. [])\<rparr>"

definition example_functions :: CustomFunctions where
  "example_functions =
     [''http://test.com#ERROR'' \<mapsto> (\<lambda>args. Inl (Thrown ''unbound solution'')),
      ''http://test.com#STRICT'' \<mapsto>
        (\<lambda>args. case args of [Term t] \<Rightarrow> Inr (Term t) | _ \<Rightarrow> Inl (Thrown ''no argument'')),
      ''http://test.com#SPLIT'' \<mapsto>
        (\<lambda>args. Inr (Terms [Some (Literal ''a'' [] []), Some (Literal ''b'' [] [])] None))]"

definition thomas :: "rdf_term Bindings" where
  "thomas = set_bindings empty_bindings ''thomas'' (Literal ''Thomas Minier'' ''en'' [])"

text \<open>\<open>new ExecutionContext()\<close>: no property, no graph, no hint, no cache.\<close>

definition new_ExecutionContext :: "'c ExecutionContext" where
  "new_ExecutionContext =
     \<lparr>context_properties = [], defaultGraphs = [], namedGraphs = [], hints = [], cache = None\<rparr>"

text \<open>
  The reading of claim C2, "matched by the graph under the mapping": the pattern, bounded
  with the mapping, is a triple of the graph.
\<close>

definition matched_by :: "triple list \<Rightarrow> rdf_term Bindings \<Rightarrow> triple \<Rightarrow> bool" where
  "matched_by store m pattern = (bound m pattern \<in> set store)"

text \<open>
  The conditions of claim C8, as amended. A magic triple is accepted when its subject is
  the query variable and its object suits its predicate: a literal for \<open>search\<close>, a
  literal that parses as a number for \<open>minRelevance\<close> and \<open>maxRelevance\<close>, a literal that
  parses as a non-negative integer for \<open>minRank\<close> and \<open>maxRank\<close>, a variable for
  \<open>relevance\<close> and \<open>rank\<close> (and a term that has a value for \<open>matchAllTerms\<close>).
  \<open>last_bound\<close> is the number that the last magic triple of a name gives.
\<close>

definition magic_triple_accepted :: "javascript \<Rightarrow> string \<Rightarrow> string \<Rightarrow> triple \<Rightarrow> bool" where
  "magic_triple_accepted js ns queryVariable t =
     (subject t = Variable queryVariable
      \<and> (term_value (predicate t) = Some (SES ns ''search'') \<longrightarrow> isLiteral (object t))
      \<and> (term_value (predicate t) = Some (SES ns ''matchAllTerms'') \<longrightarrow> term_value (object t) \<noteq> None)
      \<and> (term_value (predicate t) = Some (SES ns ''minRelevance'')
           \<or> term_value (predicate t) = Some (SES ns ''maxRelevance'')
          \<longrightarrow> isLiteral (object t) \<and> \<not> isNaN (Number js (object_value t)))
      \<and> (term_value (predicate t) = Some (SES ns ''minRank'')
           \<or> term_value (predicate t) = Some (SES ns ''maxRank'')
          \<longrightarrow> isLiteral (object t) \<and> \<not> isNaN (Number js (object_value t))
              \<and> isInteger (Number js (object_value t)) \<and> \<not> negative (Number js (object_value t)))
      \<and> (term_value (predicate t) = Some (SES ns ''relevance'')
           \<or> term_value (predicate t) = Some (SES ns ''rank'')
          \<longrightarrow> isVariable (object t)))"

fun last_bound :: "javascript \<Rightarrow> string \<Rightarrow> string \<Rightarrow> triple list \<Rightarrow> number option" where
  "last_bound js ns name [] = None"
| "last_bound js ns name (t # ts) =
     (case last_bound js ns name ts of
        Some n \<Rightarrow> Some n
      | None \<Rightarrow> (if term_value (predicate t) = Some (SES ns name)
                 then Some (Number js (object_value t)) else None))"

text \<open>
  A stand-in for \<open>Number\<close> on the two strings of the example, a namespace, and the magic
  triples of a search for two keywords.
\<close>

definition example_javascript :: javascript where
  "example_javascript =
     \<lparr>Number = (\<lambda>s. if s = ''0.25'' then Finite (1 / 4) else if s = ''5'' then Finite 5 else NaN),
      lowerCase = (\<lambda>s. s)\<rparr>"

definition example_namespace :: string where
  "example_namespace = ''https://callidon.github.io/sparql-engine/search#''"

definition neil_gaiman :: "triple list" where
  "neil_gaiman =
     [\<lparr>subject = Variable ''o'', predicate = NamedNode (SES example_namespace ''search''),
       object = Literal ''neil gaiman'' [] []\<rparr>,
      \<lparr>subject = Variable ''o'', predicate = NamedNode (SES example_namespace ''minRelevance''),
       object = Literal ''0.25'' [] []\<rparr>,
      \<lparr>subject = Variable ''o'', predicate = NamedNode (SES example_namespace ''maxRank''),
       object = Literal ''5'' [] []\<rparr>,
      \<lparr>subject = Variable ''o'', predicate = NamedNode (SES example_namespace ''rank''),
       object = Variable ''r''\<rparr>]"

text \<open>
  A cache for the examples: the list of its entries, each the patterns of a BGP with the
  mappings stored for it. \<open>findSubset\<close> finds an entry of exactly the patterns asked,
  \<open>update\<close> appends a mapping to the entry, \<open>commit\<close> changes nothing more.
\<close>

definition example_cache :: "(triple list \<times> rdf_term Bindings list) list cache_operations" where
  "example_cache =
     \<lparr>findSubset = (\<lambda>c patterns iri. case map_of c patterns of
                                        Some ms \<Rightarrow> (patterns, [])
                                      | None \<Rightarrow> ([], patterns)),
      cached = (\<lambda>c patterns iri. case map_of c patterns of Some ms \<Rightarrow> ms | None \<Rightarrow> []),
      update = (\<lambda>c patterns iri b.
                  AList.update patterns ((case map_of c patterns of Some ms \<Rightarrow> ms | None \<Rightarrow> []) @ [b]) c),
      commit = (\<lambda>c patterns iri. c),
      join_missing = (\<lambda>s missing. s)\<rparr>"


definition example_operations :: tables where
  "example_operations =
     example_tables\<lparr>SPARQL_OPERATIONS :=
       [''str'' \<mapsto> (\<lambda>args. case args of
                                [Term t] \<Rightarrow> (case term_value t of
                                               Some v \<Rightarrow> Inr (Term (Literal v [] []))
                                             | None \<Rightarrow> Inl TypeError)
                              | _ \<Rightarrow> Inl TypeError)]\<rparr>"

text \<open>
  A graph of two triples, a pattern, two input mappings, and a backend capable of \<open>UNION\<close>
  over the same triples. \<open>asked\<close> is a cached evaluation that keeps, as the state of the
  cache, the BGPs it was asked, and answers with \<open>graph.evalBGP\<close>.
\<close>

definition example_store :: "triple list" where
  "example_store =
     [\<lparr>subject = NamedNode ''a'', predicate = NamedNode ''p'', object = NamedNode ''b''\<rparr>,
      \<lparr>subject = NamedNode ''c'', predicate = NamedNode ''p'', object = NamedNode ''d''\<rparr>]"

definition example_pattern :: triple where
  "example_pattern = \<lparr>subject = Variable ''s'', predicate = NamedNode ''p'', object = Variable ''o''\<rparr>"

definition example_inputs :: "rdf_term Bindings stage" where
  "example_inputs =
     Stage [set_bindings empty_bindings ''s'' (NamedNode ''a''),
            set_bindings empty_bindings ''s'' (NamedNode ''c'')] None"

definition union_graph :: graph where
  "union_graph = (N3Graph example_store)\<lparr>capabilities := (\<lambda>token. token = UNION)\<rparr>"

definition asked :: "triple list list cached_evaluation" where
  "asked patterns g c ctx = (evalBGP g patterns, c @ [patterns])"

text \<open>
  A query with a LIMIT whose WHERE clause is a sub-query without one:
  \<open>SELECT * WHERE { SELECT * WHERE { a p ?o } } LIMIT 10\<close>; and the context in which
  the WHERE clause of the sub-query is built, with a cache that holds nothing yet.
\<close>

definition example_bgp :: "triple list" where
  "example_bgp = [\<lparr>subject = NamedNode ''a'', predicate = NamedNode ''p'', object = Variable ''o''\<rparr>]"

definition example_sub_query :: query where
  "example_sub_query = Query SELECT [] [Wildcard] None (Some [BgpPattern example_bgp]) None None None"

definition example_limit_query :: query where
  "example_limit_query =
     Query SELECT [] [Wildcard] None (Some [QueryPattern example_sub_query]) None (Some 10) None"

definition sub_query_context :: "(triple list \<times> rdf_term Bindings list) list ExecutionContext" where
  "sub_query_context =
     \<lparr>context_properties = [(PREFIXES, PrefixMap []), (HAS_LIMIT_OFFSET, Flag False)],
      defaultGraphs = [], namedGraphs = [], hints = [], cache = Some []\<rparr>"

section \<open>Theorems\<close>

subsection \<open>Bindings\<close>

lemma map_of_foldl_update:
  "map_of (foldl (\<lambda>al (k, v). AList.update k v al) al0 kvs) = map_of al0 ++ map_of (rev kvs)"
proof (induction kvs arbitrary: al0)
  case Nil
  then show ?case by simp
next
  case (Cons kv kvs)
  obtain k v where kv: "kv = (k, v)" by (cases kv)
  have "map_of (foldl (\<lambda>al (k, v). AList.update k v al) (AList.update k v al0) kvs)
        = map_of (AList.update k v al0) ++ map_of (rev kvs)"
    by (rule Cons.IH)
  then show ?case
    by (simp add: kv update_conv' map_add_def fun_eq_iff split: option.splits)
qed

text \<open>
  C9 (the code departs from the claim). \<open>equals\<close> compares the two values of a variable
  with \<open>!==\<close>, which on term objects is identity of reference. Two mappings that bind
  \<open>x\<close> to two distinct objects, both the IRI \<open>http://example.org/a\<close>, have the same domain
  and pointwise equal terms, and \<open>equals\<close> returns \<open>false\<close> on them.
\<close>

theorem equals_false_on_equal_terms:
  "same_mapping (\<lambda>r::nat. NamedNode ''http://example.org/a'')
       (set_bindings empty_bindings ''x'' 0) (set_bindings empty_bindings ''x'' 1)
   \<and> equals (set_bindings empty_bindings ''x'' (0::nat)) (set_bindings empty_bindings ''x'' 1)
       = False"
  by (simp add: same_mapping_def equals_def set_bindings_def empty_bindings_def
      size_bindings_def variables_def get_def)

lemma equals_loop_all:
  "equals_loop this other vs
   \<longleftrightarrow> (\<forall>v\<in>set vs. has this (Variable v) \<and> get this v = get other v)"
  by (induction vs) auto

lemma has_variables: "has this (Variable v) \<longleftrightarrow> v \<in> set (variables this)"
  by (simp add: variables_def map_of_eq_None_iff)

text \<open>
  What \<open>equals\<close> does establish: when it returns \<open>true\<close>, the two mappings have the same
  variables and every variable has the same value, as a reference, in both; so the terms
  are equal whatever the references stand for.
\<close>

lemma equals_sound:
  assumes d1: "distinct (variables m1)" and d2: "distinct (variables m2)"
    and eq: "equals m1 m2"
  shows "same_mapping deref m1 m2"
proof -
  from eq have len: "length (variables m1) = length (variables m2)"
    and loop: "equals_loop m1 m2 (variables m2)"
    by (simp_all add: equals_def size_bindings_def variables_def split: if_splits)
  from loop have sub: "set (variables m2) \<subseteq> set (variables m1)"
    and same: "\<forall>v\<in>set (variables m2). get m1 v = get m2 v"
    by (auto simp: equals_loop_all has_variables simp del: has.simps)
  have "card (set (variables m2)) = card (set (variables m1))"
    using d1 d2 len by (simp add: distinct_card)
  with sub have "set (variables m2) = set (variables m1)"
    by (intro card_subset_eq) simp_all
  then show ?thesis
    using same by (simp add: same_mapping_def list_all_iff)
qed

subsection \<open>The default cache\<close>

text \<open>
  C5 (the code departs from its own documentation). \<open>useCache()\<close> installs an LRU cache of
  500 entries whose maximum age is \<open>1200 * 60 * 60 = 4320000\<close>: that is not 20 minutes
  in milliseconds, in seconds or in minutes.
\<close>

theorem useCache_default_age:
  "currentCache (useCache None this) = Some (LRUBGPCache 500 4320000)
   \<and> 4320000 \<noteq> twenty_minutes u"
  by (cases u) (simp_all add: useCache_def)

subsection \<open>Clones and compiled expressions\<close>

lemma update_fresh: "k \<notin> fst ` set al \<Longrightarrow> AList.update k v al = al @ [(k, v)]"
  by (induction al) auto

lemma foldl_update_distinct:
  "distinct (map fst kvs) \<Longrightarrow> fst ` set al \<inter> fst ` set kvs = {}
   \<Longrightarrow> foldl (\<lambda>al (k, v). AList.update k v al) al kvs = al @ kvs"
proof (induction kvs arbitrary: al)
  case Nil
  then show ?case by simp
next
  case (Cons kv kvs)
  obtain k v where kv: "kv = (k, v)" by (cases kv)
  have fresh: "k \<notin> fst ` set al" using Cons.prems(2) kv by auto
  have "foldl (\<lambda>al (k, v). AList.update k v al) (al @ [(k, v)]) kvs = (al @ [(k, v)]) @ kvs"
    using Cons.prems kv by (intro Cons.IH) auto
  then show ?case by (simp add: kv update_fresh[OF fresh])
qed

lemma content_foldl_set:
  "content (foldl (\<lambda>cloned (variable, v). set_bindings cloned variable v) c kvs)
   = foldl (\<lambda>al (k, v). AList.update k v al) (content c) kvs"
  by (induction kvs arbitrary: c) (auto simp: set_bindings_def)

lemma content_foldl_setProperty:
  "content (foldl (\<lambda>cloned (k, p). setProperty cloned k p) c ps) = content c"
  by (induction ps arbitrary: c) (auto simp: setProperty_def)

lemma content_clone:
  "distinct (variables this) \<Longrightarrow> content (clone this) = content this"
  by (simp add: clone_def content_foldl_set content_foldl_setProperty empty_bindings_def
      foldl_update_distinct variables_def)

lemma get_set_bindings:
  "get (set_bindings b x t) v = (if v = x then Some t else get b v)"
  by (simp add: get_def set_bindings_def update_conv')

lemma evaluate_args_content:
  "list_all keeps_content cs \<Longrightarrow> content (snd (evaluate_args cs b)) = content b"
proof (induction cs arbitrary: b)
  case Nil
  then show ?case by simp
next
  case (Cons c cs)
  from Cons.prems have c: "content (snd (c b)) = content b"
    by (simp add: keeps_content_def)
  from Cons.prems have cs: "list_all keeps_content cs" by simp
  show ?case
    using c Cons.IH[OF cs, of "snd (c b)"]
    by (auto split: prod.splits sum.splits)
qed

lemma first_error_all:
  "first_error (map f xs) = Inr ys \<Longrightarrow> (\<And>x y. x \<in> set xs \<Longrightarrow> f x = Inr y \<Longrightarrow> P y)
   \<Longrightarrow> list_all P ys"
proof (induction xs arbitrary: ys)
  case Nil
  then show ?case by simp
next
  case (Cons x xs)
  from Cons.prems(1) obtain y ys' where y: "f x = Inr y"
    and ys': "first_error (map f xs) = Inr ys'" and ys: "ys = y # ys'"
    by (cases "f x") (auto split: sum.splits)
  have "P y" using Cons.prems(2)[of x y] y by simp
  moreover have "list_all P ys'"
    using ys' Cons.prems(2) by (intro Cons.IH) auto
  ultimately show ?case by (simp add: ys)
qed

lemma compileExpression_keeps_content:
  "compileExpression T cf e = Inr c \<Longrightarrow> keeps_content c"
proof (induction T cf e arbitrary: c rule: compileExpression.induct)
  case (1 T cf t)
  then show ?case
    by (cases t) (auto simp: keeps_content_def bindArgument_def split: option.splits)
next
  case (2 T cf ts)
  then show ?case by (auto simp: keeps_content_def)
next
  case (3 T cf operator args)
  from "3.prems" obtain compiled operation where
    comp: "first_error (map (compileExpression T cf) args) = Inr compiled"
    and c: "c = (\<lambda>bindings. case evaluate_args compiled bindings of
                    (Inl e, b1) \<Rightarrow> (Inl e, b1) | (Inr vs, b1) \<Rightarrow> (operation vs, b1))"
    by (auto split: sum.splits option.splits)
  have "list_all keeps_content compiled"
    using comp "3.IH" by (rule first_error_all)
  then have "\<And>b. content (snd (evaluate_args compiled b)) = content b"
    by (rule evaluate_args_content)
  then show ?case
    unfolding keeps_content_def c
    by (auto split: prod.splits sum.splits) (metis snd_conv)+
next
  case (4 T cf aggregation aggVariable isDistinct separator)
  then show ?case
    by (auto simp: keeps_content_def setProperty_def Let_def split: option.splits)
next
  case (5 T cf functionName args)
  show ?case
  proof (cases "CUSTOM_AGGREGATES T (toLowerCase T functionName)")
    case (Some agg)
    with "5.prems" show ?thesis by (auto simp: keeps_content_def)
  next
    case None
    with "5.prems" obtain fn where fn: "cf functionName = Some fn"
      and c: "c = (\<lambda>bindings.
                 (case first_error (map (compileExpression T cf) args) of
                    Inl e \<Rightarrow> (Inr Null, bindings)
                  | Inr compiled \<Rightarrow>
                      (case evaluate_args compiled bindings of
                         (Inl e, b1) \<Rightarrow> (Inr Null, b1)
                       | (Inr vs, b1) \<Rightarrow>
                           (case fn vs of
                              Inl e \<Rightarrow> (Inr Null, b1)
                            | Inr out \<Rightarrow> (Inr out, b1)))))"
      by (auto split: option.splits)
    show ?thesis
    proof (cases "first_error (map (compileExpression T cf) args)")
      case (Inl e)
      then show ?thesis by (simp add: c keeps_content_def)
    next
      case (Inr compiled)
      have "list_all keeps_content compiled"
        using Inr "5.IH"[OF None fn] by (rule first_error_all)
      then have "\<And>b. content (snd (evaluate_args compiled b)) = content b"
        by (rule evaluate_args_content)
      then show ?thesis
        unfolding keeps_content_def c Inr
        by (auto split: prod.splits sum.splits) (metis snd_conv)+
    qed
  qed
next
  case (6 T cf)
  then show ?case by simp
qed

lemma SPARQLExpression_keeps_content:
  "SPARQLExpression T cf e = Inr expr \<Longrightarrow> content (snd (expr b)) = content b"
  using compileExpression_keeps_content[of T "CUSTOM_OPERATIONS T ++ cf" e expr]
  by (simp add: SPARQLExpression_def keeps_content_def)

subsection \<open>Stages\<close>

lemma items_stage_append:
  "items (stage_append s1 s2) = (case failure s1 of Some e \<Rightarrow> items s1 | None \<Rightarrow> items s1 @ items s2)"
  by (simp add: stage_append_def split: option.splits)





lemma mergeMap_items_singletons:
  "(\<And>x. x \<in> set xs \<Longrightarrow> f x = Stage [g x] None) \<Longrightarrow> mergeMap_items f xs = Stage (map g xs) None"
  by (induction xs) (simp_all add: engine_empty_def stage_append_def)


lemma map_items_total: "map_items (\<lambda>x. Inr (f x)) xs = Stage (map f xs) None"
  by (induction xs) (simp_all add: engine_empty_def engine_of_def stage_append_def)

lemma engine_map_total: "engine_map s (\<lambda>x. Inr (f x)) = Stage (map f (items s)) (failure s)"
  by (simp add: engine_map_def map_items_total stage_append_def)

lemma engine_mergeMap_state_single: "engine_mergeMap_state (engine_of x) f st = f x st"
proof -
  obtain xs r st1 where fx: "f x st = (Stage xs r, st1)"
    by (cases "f x st") (metis stage.exhaust)
  show ?thesis
    by (cases r)
       (simp_all add: engine_mergeMap_state_def engine_of_def fx engine_empty_def stage_append_def)
qed

subsection \<open>BIND\<close>

text \<open>
  C1, as stated, fails: BIND does not emit exactly one mapping for every expression. A
  function registered by the user may return an array, and \<open>bind\<close> then emits one mapping
  for each item: here one input mapping gives two.
\<close>

theorem bind_array_counterexample:
  "bind example_tables (engine_of empty_bindings) ''x''
     (FunctionCallExpr ''http://test.com#SPLIT'' []) example_functions
   = Inr (Stage [\<lparr>content = [(''x'', Literal ''a'' [] [])], properties = []\<rparr>,
                 \<lparr>content = [(''x'', Literal ''b'' [] [])], properties = []\<rparr>] None)"
  by (simp add: bind_def SPARQLExpression_def example_tables_def example_functions_def
      engine_mergeMap_def engine_of_def engine_empty_def stage_append_def bind_callback_def
      clone_def set_bindings_def empty_bindings_def)

text \<open>
  C1, amended. For every expression that compiles and every source on whose mappings the
  expression evaluates to a single term or to \<open>null\<close> (the way the evaluator reports a
  custom function that threw), BIND emits exactly one mapping for each input mapping, in
  the order of the input: the input mapping with the target variable bound to the
  evaluated term, or to \<open>Unbound\<close> when the evaluation returned \<open>null\<close>. The number of
  mappings, and the way the source ends, are preserved. The input mappings have pairwise
  distinct variables, as the keys of a \<open>Map\<close> have.
\<close>

theorem bind_one_mapping_per_input:
  assumes compiled: "SPARQLExpression T customFunctions e = Inr expr"
    and wf: "\<forall>m\<in>set (items src). distinct (variables m)"
    and single: "\<forall>m\<in>set (items src). \<exists>t. fst (expr m) = Inr Null \<or> fst (expr m) = Inr (Term t)"
  shows "\<exists>out. bind T src x e customFunctions = Inr out
           \<and> failure out = failure src
           \<and> length (items out) = length (items src)
           \<and> (\<forall>i<length (items src).
                 get (items out ! i) x
                   = Some (case fst (expr (items src ! i)) of Inr (Term t) \<Rightarrow> t | _ \<Rightarrow> Unbound)
                 \<and> (\<forall>v. v \<noteq> x \<longrightarrow> get (items out ! i) v = get (items src ! i) v))"
proof -
  define val where "val m = (case fst (expr m) of Inr (Term t) \<Rightarrow> t | _ \<Rightarrow> Unbound)" for m
  define g where "g m = set_bindings (clone (snd (expr m))) x (val m)" for m
  have one: "bind_callback expr x m = Stage [g m] None" if "m \<in> set (items src)" for m
  proof -
    from single that obtain t where "fst (expr m) = Inr Null \<or> fst (expr m) = Inr (Term t)"
      by blast
    then show ?thesis
      by (cases "expr m") (auto simp: bind_callback_def engine_of_def g_def val_def)
  qed
  have merged: "mergeMap_items (bind_callback expr x) (items src) = Stage (map g (items src)) None"
    using one by (rule mergeMap_items_singletons)
  define out where "out = engine_mergeMap src (bind_callback expr x)"
  have out: "out = Stage (map g (items src)) (failure src)"
    by (simp add: out_def engine_mergeMap_def merged stage_append_def)
  have bound: "get (g m) x = Some (val m) \<and> (\<forall>v. v \<noteq> x \<longrightarrow> get (g m) v = get m v)"
    if "m \<in> set (items src)" for m
  proof -
    have same: "content (snd (expr m)) = content m"
      using compiled by (rule SPARQLExpression_keeps_content)
    have "distinct (variables (snd (expr m)))"
      using wf that by (simp add: variables_def same)
    then have "content (clone (snd (expr m))) = content m"
      by (simp add: content_clone same)
    then show ?thesis
      by (simp add: g_def get_set_bindings) (simp add: get_def)
  qed
  have "bind T src x e customFunctions = Inr out"
    by (simp add: bind_def compiled out_def)
  moreover have "failure out = failure src" by (simp add: out)
  moreover have "length (items out) = length (items src)" by (simp add: out)
  moreover have "\<forall>i<length (items src).
                   get (items out ! i) x = Some (val (items src ! i))
                 \<and> (\<forall>v. v \<noteq> x \<longrightarrow> get (items out ! i) v = get (items src ! i) v)"
    using bound by (simp add: out)
  ultimately show ?thesis unfolding val_def by blast
qed

lemma example_error_compiles:
  "SPARQLExpression example_tables example_functions
     (FunctionCallExpr ''http://test.com#ERROR'' [TermExpr (Variable ''thomas'')])
   = Inr (projr (SPARQLExpression example_tables example_functions
     (FunctionCallExpr ''http://test.com#ERROR'' [TermExpr (Variable ''thomas'')])))"
  by (simp add: SPARQLExpression_def example_tables_def example_functions_def)

lemma example_error_null:
  "fst (projr (SPARQLExpression example_tables example_functions
     (FunctionCallExpr ''http://test.com#ERROR'' [TermExpr (Variable ''thomas'')])) thomas) = Inr Null"
  by (simp add: SPARQLExpression_def example_tables_def example_functions_def thomas_def
      bindArgument_def set_bindings_def empty_bindings_def get_def)

theorem bind_one_mapping_per_input_witness:
  "\<exists>out. bind example_tables (engine_of thomas) ''error''
            (FunctionCallExpr ''http://test.com#ERROR'' [TermExpr (Variable ''thomas'')])
            example_functions = Inr out
     \<and> failure out = None \<and> length (items out) = 1
     \<and> get (items out ! 0) ''error'' = Some Unbound
     \<and> get (items out ! 0) ''thomas'' = Some (Literal ''Thomas Minier'' ''en'' [])"
proof -
  have wf: "\<forall>m\<in>set (items (engine_of thomas)). distinct (variables m)"
    by (simp add: engine_of_def thomas_def variables_def set_bindings_def empty_bindings_def)
  have single: "\<forall>m\<in>set (items (engine_of thomas)). \<exists>t.
      fst (projr (SPARQLExpression example_tables example_functions
        (FunctionCallExpr ''http://test.com#ERROR'' [TermExpr (Variable ''thomas'')])) m) = Inr Null
    \<or> fst (projr (SPARQLExpression example_tables example_functions
        (FunctionCallExpr ''http://test.com#ERROR'' [TermExpr (Variable ''thomas'')])) m) = Inr (Term t)"
    by (simp add: engine_of_def example_error_null)
  from bind_one_mapping_per_input[OF example_error_compiles wf single, of "''error''"]
  obtain out where out: "bind example_tables (engine_of thomas) ''error''
            (FunctionCallExpr ''http://test.com#ERROR'' [TermExpr (Variable ''thomas'')])
            example_functions = Inr out"
     "failure out = failure (engine_of thomas)" "length (items out) = length (items (engine_of thomas))"
     "\<forall>i<length (items (engine_of thomas)).
        get (items out ! i) ''error''
          = Some (case fst (projr (SPARQLExpression example_tables example_functions
                (FunctionCallExpr ''http://test.com#ERROR'' [TermExpr (Variable ''thomas'')]))
                  (items (engine_of thomas) ! i)) of Inr (Term t) \<Rightarrow> t | _ \<Rightarrow> Unbound)
        \<and> (\<forall>v. v \<noteq> ''error'' \<longrightarrow> get (items out ! i) v = get (items (engine_of thomas) ! i) v)"
    by blast
  from out(4) have "get (items out ! 0) ''error'' = Some Unbound
      \<and> get (items out ! 0) ''thomas'' = get thomas ''thomas''"
    by (simp add: engine_of_def example_error_null)
  then show ?thesis
    using out(1,2,3)
    by (simp add: engine_of_def thomas_def get_def set_bindings_def empty_bindings_def)
qed

subsection \<open>Custom functions that throw\<close>


text \<open>
  A call that throws evaluates to \<open>null\<close>, and what an expression around the call makes of
  it is the matter of that expression. With an operator that throws on \<open>null\<close> around the
  call (the operator table is not among the sources), \<open>evaluate\<close> throws, and BIND
  silences the error and emits no mapping for the first input; the second input, on
  which the function returns, is bound.
\<close>

lemma nested_call_emits_nothing:
  "bind example_operations (Stage [empty_bindings, thomas] None) ''name''
      (OperationExpr ''str'' [FunctionCallExpr ''http://test.com#STRICT'' [TermExpr (Variable ''thomas'')]])
      example_functions
   = Inr (Stage [\<lparr>content = [(''thomas'', Literal ''Thomas Minier'' ''en'' []),
                             (''name'', Literal ''Thomas Minier'' [] [])], properties = []\<rparr>] None)"
  by (simp add: bind_def SPARQLExpression_def example_tables_def example_operations_def
      example_functions_def
      engine_mergeMap_def engine_of_def engine_empty_def stage_append_def bind_callback_def
      clone_def set_bindings_def empty_bindings_def thomas_def bindArgument_def get_def)



text \<open>The same on concrete values: the first mapping makes the function throw, the second does not.\<close>

lemma example_strict_continues:
  "bind example_tables (Stage [empty_bindings, thomas] None) ''name''
      (FunctionCallExpr ''http://test.com#STRICT'' [TermExpr (Variable ''thomas'')]) example_functions
   = Inr (Stage [\<lparr>content = [(''name'', Unbound)], properties = []\<rparr>,
                 \<lparr>content = [(''thomas'', Literal ''Thomas Minier'' ''en'' []),
                             (''name'', Literal ''Thomas Minier'' ''en'' [])], properties = []\<rparr>] None)"
  by (simp add: bind_def SPARQLExpression_def example_tables_def example_functions_def
      engine_mergeMap_def engine_of_def engine_empty_def stage_append_def bind_callback_def
      clone_def set_bindings_def empty_bindings_def thomas_def bindArgument_def get_def)

subsection \<open>The WHERE clause\<close>

lemma merge_consecutive_bgps_cons_bgp:
  "merge_consecutive_bgps (BgpPattern ts # BgpPattern ts1 # rest)
   = merge_consecutive_bgps (BgpPattern (ts @ ts1) # rest)"
  by (cases "merge_consecutive_bgps rest" rule: merge_consecutive_bgps.cases)
     (auto split: list.splits pattern.splits)

lemma merge_consecutive_bgps_cons_other:
  "\<not> (isBgp g \<and> isBgp h) \<Longrightarrow>
   merge_consecutive_bgps (g # h # rest) = g # merge_consecutive_bgps (h # rest)"
  by (cases g; cases h) (auto split: list.splits pattern.splits)

lemma merge_loop_invariant:
  "acc \<noteq> [] \<Longrightarrow> isBgp p = isBgp (last acc) \<Longrightarrow>
   merge_loop rest acc (Some p) = Inr (butlast acc @ merge_consecutive_bgps (last acc # rest))"
proof (induction rest arbitrary: acc p)
  case Nil
  have "merge_consecutive_bgps [last acc] = [last acc]"
    by (cases "last acc") simp_all
  then show ?case using Nil by (simp del: merge_consecutive_bgps.simps)
next
  case (Cons g rest)
  show ?case
  proof (cases "isBgp g \<and> isBgp p")
    case True
    then obtain ts ts1 where l: "last acc = BgpPattern ts" and g: "g = BgpPattern ts1"
      using Cons.prems(2) by (cases "last acc"; cases g) auto
    have "merge_loop rest (butlast acc @ [BgpPattern (ts @ ts1)]) (Some g)
          = Inr (butlast (butlast acc @ [BgpPattern (ts @ ts1)])
                 @ merge_consecutive_bgps (last (butlast acc @ [BgpPattern (ts @ ts1)]) # rest))"
      by (rule Cons.IH) (simp_all add: g)
    then show ?thesis
      using True Cons.prems(1) l g
      by (simp add: merge_consecutive_bgps_cons_bgp del: merge_consecutive_bgps.simps)
  next
    case False
    have "merge_loop rest (acc @ [g]) (Some g)
          = Inr (butlast (acc @ [g]) @ merge_consecutive_bgps (last (acc @ [g]) # rest))"
      by (rule Cons.IH) simp_all
    moreover have "merge_consecutive_bgps (last acc # g # rest)
                   = last acc # merge_consecutive_bgps (g # rest)"
      using False Cons.prems(2) by (intro merge_consecutive_bgps_cons_other) auto
    moreover have "acc = butlast acc @ [last acc]" using Cons.prems(1) by simp
    ultimately show ?thesis
      using False by (simp del: merge_consecutive_bgps.simps) metis
  qed
qed

lemma merge_loop_start: "merge_loop gs [] None = Inr (merge_consecutive_bgps gs)"
proof (cases gs)
  case Nil
  then show ?thesis by simp
next
  case (Cons g rest)
  have "merge_loop rest [g] (Some g) = Inr (butlast [g] @ merge_consecutive_bgps (last [g] # rest))"
    by (rule merge_loop_invariant) simp_all
  then show ?thesis by (simp add: Cons del: merge_consecutive_bgps.simps)
qed

text \<open>
  C7, as stated, fails on a list of groups that holds a VALUES clause: \<open>_buildWhere\<close>
  sorts the groups and hands them to \<open>_buildValues\<close>; the two BGPs, consecutive after the
  sort, are not merged.
\<close>

theorem buildWhere_values_counterexample:
  "buildWhere [BgpPattern [\<lparr>subject = Variable ''s'', predicate = NamedNode ''p'', object = Variable ''x''\<rparr>],
               ValuesPattern [],
               BgpPattern [\<lparr>subject = Variable ''s'', predicate = NamedNode ''q'', object = Variable ''y''\<rparr>]]
   = Inr (BuildValues
       [BgpPattern [\<lparr>subject = Variable ''s'', predicate = NamedNode ''p'', object = Variable ''x''\<rparr>],
        BgpPattern [\<lparr>subject = Variable ''s'', predicate = NamedNode ''q'', object = Variable ''y''\<rparr>],
        ValuesPattern []])"
  by (simp add: buildWhere_def sortBy_def)

text \<open>
  C7, amended. For every list of WHERE-clause groups the plan builder sorts the groups by
  the rank (BGP 0, graph with a name that is not a variable 0, VALUES 3, FILTER 4, graph
  with a variable 5, every other group 1): the result is sorted by rank, holds the same
  groups, and keeps the groups of equal rank in their order. When the list has no VALUES
  clause, it then merges every run of consecutive BGP groups into one BGP whose triples
  are those of the run in order, and builds the merged groups; the loop never fails.
  When the list has a VALUES clause, the sorted groups go to \<open>_buildValues\<close> unmerged.
\<close>

theorem buildWhere_sorts_then_merges:
  "buildWhere groups
     = Inr (if list_ex isValues groups then BuildValues (sortBy groups group_rank)
            else BuildGroups (merge_consecutive_bgps (sortBy groups group_rank)))
   \<and> sorted (map group_rank (sortBy groups group_rank))
   \<and> mset (sortBy groups group_rank) = mset groups
   \<and> (\<forall>k. filter (\<lambda>g. group_rank g = k) (sortBy groups group_rank)
            = filter (\<lambda>g. group_rank g = k) groups)
   \<and> group_rank g = (case g of
                       BgpPattern ts \<Rightarrow> 0
                     | GraphPattern name ps \<Rightarrow> if isVariable name then 5 else 0
                     | ValuesPattern rows \<Rightarrow> 3
                     | FilterPattern e \<Rightarrow> 4
                     | _ \<Rightarrow> 1)"
proof -
  have "list_ex isValues (sortBy groups group_rank) = list_ex isValues groups"
    by (simp add: sortBy_def list_ex_iff)
  then have "buildWhere groups
     = Inr (if list_ex isValues groups then BuildValues (sortBy groups group_rank)
            else BuildGroups (merge_consecutive_bgps (sortBy groups group_rank)))"
    by (simp add: buildWhere_def Let_def merge_loop_start)
  moreover have "group_rank g = (case g of
                       BgpPattern ts \<Rightarrow> 0
                     | GraphPattern name ps \<Rightarrow> if isVariable name then 5 else 0
                     | ValuesPattern rows \<Rightarrow> 3
                     | FilterPattern e \<Rightarrow> 4
                     | _ \<Rightarrow> 1)"
    by (cases g) simp_all
  ultimately show ?thesis
    by (simp add: sortBy_def sort_key_stable)
qed

theorem buildWhere_sorts_then_merges_witness:
  "buildWhere [FilterPattern (TermExpr (Variable ''x'')),
               BgpPattern [\<lparr>subject = Variable ''s'', predicate = NamedNode ''p'', object = Variable ''x''\<rparr>],
               GraphPattern (Variable ''g'') [],
               BgpPattern [\<lparr>subject = Variable ''s'', predicate = NamedNode ''q'', object = Variable ''y''\<rparr>]]
   = Inr (BuildGroups
       [BgpPattern [\<lparr>subject = Variable ''s'', predicate = NamedNode ''p'', object = Variable ''x''\<rparr>,
                    \<lparr>subject = Variable ''s'', predicate = NamedNode ''q'', object = Variable ''y''\<rparr>],
        FilterPattern (TermExpr (Variable ''x'')),
        GraphPattern (Variable ''g'') []])"
  using buildWhere_sorts_then_merges[of
      "[FilterPattern (TermExpr (Variable ''x'')),
        BgpPattern [\<lparr>subject = Variable ''s'', predicate = NamedNode ''p'', object = Variable ''x''\<rparr>],
        GraphPattern (Variable ''g'') [],
        BgpPattern [\<lparr>subject = Variable ''s'', predicate = NamedNode ''q'', object = Variable ''y''\<rparr>]]"]
  by (simp add: sortBy_def)

subsection \<open>LIMIT, OFFSET and the cache\<close>

lemma mergeMap_state_items_pure:
  "(\<And>x. x \<in> set xs \<Longrightarrow> f x st = (h x, st))
   \<Longrightarrow> mergeMap_state_items f xs st = (mergeMap_items h xs, st)"
proof (induction xs)
  case Nil
  then show ?case by simp
next
  case (Cons x xs)
  then have x: "f x st = (h x, st)"
    and xs: "mergeMap_state_items f xs st = (mergeMap_items h xs, st)"
    by simp_all
  show ?case
    by (cases "failure (h x)") (simp_all add: x xs stage_append_def)
qed

lemma bgpEvaluation_callback_limit_offset:
  "has_limit_offset ctx \<Longrightarrow>
   bgpEvaluation_callback (cacheEvalBGP ops) bgp g bindings ctx
   = (engine_map (evalBGP g (map (bound bindings) bgp)) (\<lambda>item. Inr (union_bindings item bindings)),
      ctx)"
  by (cases "cache ctx")
     (simp_all add: bgpEvaluation_callback_def cachingEnabled_def cacheEvalBGP_def Let_def)

text \<open>
  What holds of C3. A SELECT, CONSTRUCT or ASK query that carries a LIMIT or an OFFSET has
  the flag \<open>HAS_LIMIT_OFFSET\<close> set to \<open>true\<close> in the context with which its own WHERE clause
  is built. Under a context that has the flag set, the cached evaluation of section 4.5
  gives the bounded patterns to \<open>graph.evalBGP\<close>, whatever the cache holds and does, and
  leaves the context, and the cache in it, as they were.
\<close>

lemma buildQueryPlan_records_limit_offset:
  assumes "queryType q \<noteq> DESCRIBE" and "limit q \<noteq> None \<or> offset q \<noteq> None"
  shows "has_limit_offset (fst (buildQueryPlan_where str q ctx))"
  using assms
  by (auto simp: has_limit_offset_def context_getProperty_def context_setProperty_def
      update_conv' Let_def split: option.splits)

lemma limit_offset_bypasses_cache:
  assumes "has_limit_offset K"
  shows "bgpEvaluation (cacheEvalBGP ops) src bgp g K
         = (engine_mergeMap src (\<lambda>bindings.
              engine_map (evalBGP g (map (bound bindings) bgp))
                (\<lambda>item. Inr (union_bindings item bindings))), K)"
  using assms
  by (simp add: bgpEvaluation_def engine_mergeMap_state_def engine_mergeMap_def
      mergeMap_state_items_pure[where h = "\<lambda>bindings.
                engine_map (evalBGP g (map (bound bindings) bgp))
                  (\<lambda>item. Inr (union_bindings item bindings))"]
      bgpEvaluation_callback_limit_offset)

text \<open>
  The flag is lost in two ways. A DESCRIBE query is rewritten into a CONSTRUCT query that
  has neither \<open>limit\<close> nor \<open>offset\<close>, and the flag recorded before the WHERE clause is
  built is \<open>false\<close>. And every query without LIMIT and OFFSET sets the flag to \<open>false\<close> in
  the context it is given, whatever that context held: so does a sub-query, in the clone
  of the context of the query around it.
\<close>

lemma describe_drops_limit_offset:
  "context_getProperty
     (fst (buildQueryPlan_where (\<lambda>v. [])
        (Query DESCRIBE [] [Resource (NamedNode ''http://example.org/s'')] None None None (Some 10) None)
        (new_ExecutionContext :: unit ExecutionContext)))
     HAS_LIMIT_OFFSET = Some (Flag False)"
  by (simp add: describe_construct_def context_getProperty_def context_setProperty_def
      new_ExecutionContext_def Let_def)

lemma buildQueryPlan_overwrites_limit_offset:
  assumes "queryType q \<noteq> DESCRIBE" and "limit q = None" and "offset q = None"
  shows "context_getProperty (fst (buildQueryPlan_where str q ctx)) HAS_LIMIT_OFFSET
         = Some (Flag False)"
  using assms
  by (auto simp: context_getProperty_def context_setProperty_def
      update_conv' Let_def split: option.splits)

text \<open>
  C3 (the code departs from the claim). The query
  \<open>SELECT * WHERE { SELECT * WHERE { a p ?o } } LIMIT 10\<close> carries a LIMIT, and the
  context with which its WHERE clause is built has the flag. The WHERE clause is the
  sub-query; \<open>_buildGroup\<close> re-enters \<open>_buildQueryPlan\<close> with a clone of the context, and
  the sub-query, which has no LIMIT of its own, sets the flag to \<open>false\<close> there. The BGP of
  the sub-query, a BGP of the query with the LIMIT, goes to the stage builder with that
  context: the cache is enabled, the flag is not set, and the evaluation of the BGP over
  the graph of the triples \<open>a p b\<close> and \<open>c p d\<close> writes an entry for the BGP to the cache.
\<close>

theorem subquery_resets_limit_offset:
  "has_limit_offset (fst (buildQueryPlan_where (\<lambda>v. []) example_limit_query
                            (new_ExecutionContext\<lparr>cache := Some []\<rparr>
                               :: (triple list \<times> rdf_term Bindings list) list ExecutionContext)))
   \<and> snd (buildQueryPlan_where (\<lambda>v. []) example_limit_query
             (new_ExecutionContext\<lparr>cache := Some []\<rparr>
                :: (triple list \<times> rdf_term Bindings list) list ExecutionContext))
       = [QueryPattern example_sub_query]
   \<and> buildWhere [QueryPattern example_sub_query] = Inr (BuildGroups [QueryPattern example_sub_query])
   \<and> buildGroup (\<lambda>v. []) (QueryPattern example_sub_query)
        (fst (buildQueryPlan_where (\<lambda>v. []) example_limit_query (new_ExecutionContext\<lparr>cache := Some []\<rparr>)))
       = SubQueryWhere sub_query_context [BgpPattern example_bgp]
   \<and> \<not> has_limit_offset sub_query_context
   \<and> cachingEnabled sub_query_context
   \<and> buildWhere [BgpPattern example_bgp] = Inr (BuildGroups [BgpPattern example_bgp])
   \<and> buildGroup (\<lambda>v. []) (BgpPattern example_bgp) sub_query_context
       = ExecuteBGP example_bgp sub_query_context
   \<and> bgpEvaluation (cacheEvalBGP example_cache) (engine_of empty_bindings) example_bgp
        (N3Graph example_store) sub_query_context
       = (Stage [\<lparr>content = [(''o'', NamedNode ''b'')], properties = []\<rparr>] None,
          sub_query_context
            \<lparr>cache := Some [(example_bgp, [\<lparr>content = [(''o'', NamedNode ''b'')], properties = []\<rparr>])]\<rparr>)"
proof -
  let ?K0 = "new_ExecutionContext\<lparr>cache := Some []\<rparr>
               :: (triple list \<times> rdf_term Bindings list) list ExecutionContext"
  have plan: "buildQueryPlan_where (\<lambda>v. []) example_limit_query ?K0
              = (\<lparr>context_properties = [(PREFIXES, PrefixMap []), (HAS_LIMIT_OFFSET, Flag True)],
                  defaultGraphs = [], namedGraphs = [], hints = [], cache = Some []\<rparr>,
                 [QueryPattern example_sub_query])"
    by (simp add: example_limit_query_def context_setProperty_def new_ExecutionContext_def Let_def)
  have outer: "has_limit_offset (fst (buildQueryPlan_where (\<lambda>v. []) example_limit_query ?K0))"
    unfolding plan by (simp add: has_limit_offset_def context_getProperty_def)
  have groups: "snd (buildQueryPlan_where (\<lambda>v. []) example_limit_query ?K0)
                = [QueryPattern example_sub_query]"
    unfolding plan by simp
  have sub: "buildGroup (\<lambda>v. []) (QueryPattern example_sub_query)
               (fst (buildQueryPlan_where (\<lambda>v. []) example_limit_query ?K0))
             = SubQueryWhere sub_query_context [BgpPattern example_bgp]"
    unfolding plan
    by (simp add: buildGroup_def context_clone_def example_sub_query_def
        context_setProperty_def sub_query_context_def Let_def)
  have inner: "\<not> has_limit_offset sub_query_context"
    by (simp add: has_limit_offset_def context_getProperty_def sub_query_context_def)
  have w1: "buildWhere [QueryPattern example_sub_query] = Inr (BuildGroups [QueryPattern example_sub_query])"
    by (simp add: buildWhere_def sortBy_def)
  have w2: "buildWhere [BgpPattern example_bgp] = Inr (BuildGroups [BgpPattern example_bgp])"
    by (simp add: buildWhere_def sortBy_def)
  have bgp: "buildGroup (\<lambda>v. []) (BgpPattern example_bgp) sub_query_context
             = ExecuteBGP example_bgp sub_query_context"
    by (simp add: buildGroup_def context_clone_def example_bgp_def sub_query_context_def Let_def)
  have found: "evalBGP (N3Graph example_store) example_bgp
               = Stage [\<lparr>content = [(''o'', NamedNode ''b'')], properties = []\<rparr>] None"
    by (simp add: N3Graph_def default_evalBGP_def example_store_def example_bgp_def
        indexJoin_def Let_def engine_mergeMap_def engine_of_def
        engine_empty_def stage_append_def bound_def get_def empty_bindings_def N3Graph_find_def
        formatTriplePattern_def getQuads_def engine_from_def engine_map_def indexJoin_item_def
        pickBy_def mapKeys_def triple_entries_def triple_field_def position_isVariable_def
        position_key_def fromMapping_def set_bindings_def union_bindings_def clone_def)
  have unbound: "map (bound empty_bindings) example_bgp = example_bgp"
    by (simp add: bound_def example_bgp_def empty_bindings_def get_def)
  have fields: "cache sub_query_context = Some []"
    "graph_iri (N3Graph example_store) = NamedNode ''http://example.org/default''"
    by (simp_all add: sub_query_context_def N3Graph_def)
  have call: "cacheEvalBGP example_cache example_bgp (N3Graph example_store) [] sub_query_context
       = (Stage [\<lparr>content = [(''o'', NamedNode ''b'')], properties = []\<rparr>] None,
          [(example_bgp, [\<lparr>content = [(''o'', NamedNode ''b'')], properties = []\<rparr>])])"
    by (simp add: cacheEvalBGP_def inner example_cache_def found fields)
  have joined: "union_bindings \<lparr>content = [(''o'', NamedNode ''b'')], properties = []\<rparr> empty_bindings
                = \<lparr>content = [(''o'', NamedNode ''b'')], properties = []\<rparr>"
    by (simp add: union_bindings_def clone_def set_bindings_def empty_bindings_def)
  have callback: "bgpEvaluation_callback (cacheEvalBGP example_cache) example_bgp
                    (N3Graph example_store) empty_bindings sub_query_context
       = (Stage [\<lparr>content = [(''o'', NamedNode ''b'')], properties = []\<rparr>] None,
          sub_query_context
            \<lparr>cache := Some [(example_bgp, [\<lparr>content = [(''o'', NamedNode ''b'')], properties = []\<rparr>])]\<rparr>)"
    by (simp add: bgpEvaluation_callback_def cachingEnabled_def fields unbound call
        engine_map_total joined)
  have written: "bgpEvaluation (cacheEvalBGP example_cache) (engine_of empty_bindings) example_bgp
        (N3Graph example_store) sub_query_context
       = (Stage [\<lparr>content = [(''o'', NamedNode ''b'')], properties = []\<rparr>] None,
          sub_query_context
            \<lparr>cache := Some [(example_bgp, [\<lparr>content = [(''o'', NamedNode ''b'')], properties = []\<rparr>])]\<rparr>)"
    by (simp add: bgpEvaluation_def engine_mergeMap_state_single callback)
  have enabled: "cachingEnabled sub_query_context"
    by (simp add: cachingEnabled_def fields)
  from outer groups w1 sub inner enabled w2 bgp written show ?thesis by blast
qed

subsection \<open>The choice of the join\<close>

lemma bound_substitute: "bound m t = substitute m t"
proof -
  have "(if isVariable x \<and> has m x then bound_position m x else x) = substitute_term m x" for x
    by (cases x) (simp_all add: substitute_term_def get_def split: option.splits)
  moreover have "(if \<not> isPropertyPath x \<and> isVariable x \<and> has m x then bound_position m x else x)
                 = substitute_term m x" for x
    by (cases x) (simp_all add: substitute_term_def get_def split: option.splits)
  ultimately show ?thesis by (simp add: bound_def substitute_def)
qed

lemma bound_is_substitute: "bound m = substitute m"
  by (rule ext) (rule bound_substitute)

lemma bgpEvaluation_callback_delegates:
  "delegate_evaluation cacheEval g (map (substitute m) patterns) K = (Stage found r0, K1)
   \<Longrightarrow> bgpEvaluation_callback cacheEval patterns g m K
       = (Stage (map (\<lambda>item. union_bindings item m) found) r0, K1)"
  by (cases "cache K")
     (auto simp: bgpEvaluation_callback_def delegate_evaluation_def cachingEnabled_def Let_def
        engine_map_total bound_is_substitute split: prod.splits)

lemma mergeMap_state_items_nested_loop:
  "(case mergeMap_state_items (bgpEvaluation_callback cacheEval patterns g) ms K of
      (out, K1) \<Rightarrow> (stage_append out (Stage [] r), K1))
   = index_nested_loop cacheEval g patterns ms r K"
proof (induction ms arbitrary: K)
  case Nil
  then show ?case by (simp add: engine_empty_def stage_append_def)
next
  case (Cons m ms)
  obtain found r0 K1 where d: "delegate_evaluation cacheEval g (map (substitute m) patterns) K
      = (Stage found r0, K1)"
    by (metis stage.exhaust surj_pair)
  note cb = bgpEvaluation_callback_delegates[OF d]
  show ?case
  proof (cases r0)
    case (Some e)
    then show ?thesis
      by (simp add: cb d stage_append_def)
  next
    case None
    obtain out_items out_r K2
      where rest: "mergeMap_state_items (bgpEvaluation_callback cacheEval patterns g) ms K1
                   = (Stage out_items out_r, K2)"
      by (metis stage.exhaust surj_pair)
    have nested: "index_nested_loop cacheEval g patterns ms r K1
                  = (stage_append (Stage out_items out_r) (Stage [] r), K2)"
      using Cons.IH[of K1] by (simp add: rest)
    show ?thesis
      by (cases out_r) (simp_all add: cb d None rest nested stage_append_def)
  qed
qed

text \<open>
  C6. The BGP stage gives the source to the bound join exactly when the graph has the
  capability \<open>UNION\<close> and the context does not carry the property \<open>FORCE_INDEX_JOIN\<close>; in
  every other case its result is that of the index-nested-loop strategy: for each input
  mapping of the source, in order, the patterns are substituted with the mapping and
  given to \<open>graph.evalBGP\<close>, or to the cached evaluation when the context has a cache, and
  every mapping found is united with the input mapping.
\<close>

theorem buildIterator_selects_strategy:
  "buildIterator boundJoin cacheEval src g patterns ctx
   = (if capabilities g UNION \<and> FORCE_INDEX_JOIN \<notin> fst ` set (context_properties ctx)
      then boundJoin src patterns g ctx
      else index_nested_loop cacheEval g patterns (items src) (failure src) ctx)"
proof -
  have "context_hasProperty ctx FORCE_INDEX_JOIN
        \<longleftrightarrow> FORCE_INDEX_JOIN \<in> fst ` set (context_properties ctx)"
    by (simp add: context_hasProperty_def map_of_eq_None_iff)
  then show ?thesis
    by (simp add: buildIterator_def isCapable_def bgpEvaluation_def engine_mergeMap_state_def
        mergeMap_state_items_nested_loop)
qed

text \<open>
  On the graph of the triples \<open>a p b\<close> and \<open>c p d\<close>, the pattern \<open>?s p ?o\<close> and the two
  input mappings \<open>s = a\<close> and \<open>s = c\<close>: a graph without \<open>UNION\<close> is asked once for each input
  mapping; so is a graph with \<open>UNION\<close> under \<open>FORCE_INDEX_JOIN\<close>, through the cache, which
  is asked the substituted patterns \<open>a p ?o\<close> and \<open>c p ?o\<close>; and a graph with \<open>UNION\<close>
  without that property gets what the bound join returns.
\<close>

theorem buildIterator_selects_strategy_witness:
  "buildIterator (\<lambda>src patterns g ctx. (engine_empty, ctx)) asked example_inputs
      (N3Graph example_store) [example_pattern] new_ExecutionContext
   = (Stage [\<lparr>content = [(''o'', NamedNode ''b''), (''s'', NamedNode ''a'')], properties = []\<rparr>,
             \<lparr>content = [(''o'', NamedNode ''d''), (''s'', NamedNode ''c'')], properties = []\<rparr>] None,
      new_ExecutionContext)
   \<and> buildIterator (\<lambda>src patterns g ctx. (engine_empty, ctx)) asked example_inputs
      union_graph [example_pattern]
      (context_setProperty (new_ExecutionContext\<lparr>cache := Some []\<rparr>) FORCE_INDEX_JOIN (Flag True))
   = (Stage [\<lparr>content = [(''o'', NamedNode ''b''), (''s'', NamedNode ''a'')], properties = []\<rparr>,
             \<lparr>content = [(''o'', NamedNode ''d''), (''s'', NamedNode ''c'')], properties = []\<rparr>] None,
      (context_setProperty (new_ExecutionContext\<lparr>cache := Some []\<rparr>) FORCE_INDEX_JOIN (Flag True))
        \<lparr>cache := Some [[\<lparr>subject = NamedNode ''a'', predicate = NamedNode ''p'', object = Variable ''o''\<rparr>],
                        [\<lparr>subject = NamedNode ''c'', predicate = NamedNode ''p'', object = Variable ''o''\<rparr>]]\<rparr>)
   \<and> buildIterator (\<lambda>src patterns g ctx. (engine_empty, ctx)) asked example_inputs
      union_graph [example_pattern] (new_ExecutionContext\<lparr>cache := Some []\<rparr>)
   = (engine_empty, new_ExecutionContext\<lparr>cache := Some []\<rparr>)"
proof -
  let ?bj = "\<lambda>(src :: rdf_term Bindings stage) (patterns :: triple list) (g :: graph)
               (ctx :: triple list list ExecutionContext). (engine_empty :: rdf_term Bindings stage, ctx)"
  let ?forced = "context_setProperty (new_ExecutionContext\<lparr>cache := Some []\<rparr>) FORCE_INDEX_JOIN (Flag True)
                   :: triple list list ExecutionContext"
  have a: "evalBGP (N3Graph example_store)
             [\<lparr>subject = NamedNode ''a'', predicate = NamedNode ''p'', object = Variable ''o''\<rparr>]
           = Stage [\<lparr>content = [(''o'', NamedNode ''b'')], properties = []\<rparr>] None"
    by (simp add: N3Graph_def default_evalBGP_def example_store_def
        indexJoin_def Let_def engine_mergeMap_def engine_of_def
        engine_empty_def stage_append_def bound_def get_def empty_bindings_def N3Graph_find_def
        formatTriplePattern_def getQuads_def engine_from_def engine_map_def indexJoin_item_def
        pickBy_def mapKeys_def triple_entries_def triple_field_def position_isVariable_def
        position_key_def fromMapping_def set_bindings_def union_bindings_def clone_def)
  have c: "evalBGP (N3Graph example_store)
             [\<lparr>subject = NamedNode ''c'', predicate = NamedNode ''p'', object = Variable ''o''\<rparr>]
           = Stage [\<lparr>content = [(''o'', NamedNode ''d'')], properties = []\<rparr>] None"
    by (simp add: N3Graph_def default_evalBGP_def example_store_def
        indexJoin_def Let_def engine_mergeMap_def engine_of_def
        engine_empty_def stage_append_def bound_def get_def empty_bindings_def N3Graph_find_def
        formatTriplePattern_def getQuads_def engine_from_def engine_map_def indexJoin_item_def
        pickBy_def mapKeys_def triple_entries_def triple_field_def position_isVariable_def
        position_key_def fromMapping_def set_bindings_def union_bindings_def clone_def)
  have u: "evalBGP union_graph = evalBGP (N3Graph example_store)" "capabilities union_graph UNION"
    "\<not> capabilities (N3Graph example_store) UNION"
    by (simp_all add: union_graph_def N3Graph_def)
  have s: "substitute (set_bindings empty_bindings ''s'' (NamedNode ''a'')) example_pattern
           = \<lparr>subject = NamedNode ''a'', predicate = NamedNode ''p'', object = Variable ''o''\<rparr>"
    "substitute (set_bindings empty_bindings ''s'' (NamedNode ''c'')) example_pattern
           = \<lparr>subject = NamedNode ''c'', predicate = NamedNode ''p'', object = Variable ''o''\<rparr>"
    by (simp_all add: substitute_def substitute_term_def example_pattern_def set_bindings_def
        empty_bindings_def)
  have j: "union_bindings \<lparr>content = [(''o'', NamedNode ''b'')], properties = []\<rparr>
             (set_bindings empty_bindings ''s'' (NamedNode ''a''))
           = \<lparr>content = [(''o'', NamedNode ''b''), (''s'', NamedNode ''a'')], properties = []\<rparr>"
    "union_bindings \<lparr>content = [(''o'', NamedNode ''d'')], properties = []\<rparr>
             (set_bindings empty_bindings ''s'' (NamedNode ''c''))
           = \<lparr>content = [(''o'', NamedNode ''d''), (''s'', NamedNode ''c'')], properties = []\<rparr>"
    by (simp_all add: union_bindings_def clone_def set_bindings_def empty_bindings_def)
  have first: "buildIterator ?bj asked example_inputs (N3Graph example_store) [example_pattern]
                 new_ExecutionContext
               = (Stage [\<lparr>content = [(''o'', NamedNode ''b''), (''s'', NamedNode ''a'')], properties = []\<rparr>,
                         \<lparr>content = [(''o'', NamedNode ''d''), (''s'', NamedNode ''c'')], properties = []\<rparr>] None,
                  new_ExecutionContext)"
    using buildIterator_selects_strategy[of ?bj asked example_inputs "N3Graph example_store"
        "[example_pattern]" new_ExecutionContext]
    by (simp add: u example_inputs_def delegate_evaluation_def new_ExecutionContext_def s a c j)
  have second: "buildIterator ?bj asked example_inputs union_graph [example_pattern] ?forced
     = (Stage [\<lparr>content = [(''o'', NamedNode ''b''), (''s'', NamedNode ''a'')], properties = []\<rparr>,
               \<lparr>content = [(''o'', NamedNode ''d''), (''s'', NamedNode ''c'')], properties = []\<rparr>] None,
        ?forced\<lparr>cache := Some [[\<lparr>subject = NamedNode ''a'', predicate = NamedNode ''p'', object = Variable ''o''\<rparr>],
                        [\<lparr>subject = NamedNode ''c'', predicate = NamedNode ''p'', object = Variable ''o''\<rparr>]]\<rparr>)"
    using buildIterator_selects_strategy[of ?bj asked example_inputs union_graph
        "[example_pattern]" ?forced]
    by (simp add: u example_inputs_def delegate_evaluation_def new_ExecutionContext_def
        context_setProperty_def asked_def s a c j)
  have third: "buildIterator ?bj asked example_inputs union_graph [example_pattern]
                 (new_ExecutionContext\<lparr>cache := Some []\<rparr>)
               = (engine_empty, new_ExecutionContext\<lparr>cache := Some []\<rparr>)"
    using buildIterator_selects_strategy[of ?bj asked example_inputs union_graph
        "[example_pattern]" "new_ExecutionContext\<lparr>cache := Some []\<rparr>"]
    by (simp add: u new_ExecutionContext_def)
  from first second third show ?thesis by simp
qed

subsection \<open>The index join\<close>

lemma map_of_rev_distinct: "distinct (map fst xs) \<Longrightarrow> map_of (rev xs) = map_of xs"
proof -
  assume d: "distinct (map fst xs)"
  then have "distinct (map fst (rev xs))" by (metis distinct_rev rev_map)
  then show ?thesis using d by (simp add: map_of_inject_set)
qed

lemma get_union_bindings:
  "distinct (variables other) \<Longrightarrow>
   get (union_bindings this other) v
   = (case get other v of Some x \<Rightarrow> Some x | None \<Rightarrow> get (clone this) v)"
  by (simp add: get_def union_bindings_def content_foldl_set map_of_foldl_update
      map_of_rev_distinct variables_def map_add_def split: option.splits)

lemma items_mergeMap_items:
  "y \<in> set (items (mergeMap_items f xs)) \<Longrightarrow> \<exists>x\<in>set xs. y \<in> set (items (f x))"
  by (induction xs) (auto simp: engine_empty_def items_stage_append split: option.splits)

lemma items_map_items:
  "y \<in> set (items (map_items f xs)) \<Longrightarrow> \<exists>x\<in>set xs. f x = Inr y"
  by (induction xs)
     (auto simp: engine_empty_def engine_of_def items_stage_append split: option.splits sum.splits)

text \<open>
  Every mapping that \<open>indexJoin\<close> emits extends the input mapping it comes from: \<open>union\<close>
  sets the mappings of the input last.
\<close>

lemma indexJoin_extends_input:
  assumes out: "m' \<in> set (items (indexJoin src pattern g))"
    and wf: "\<forall>m\<in>set (items src). distinct (variables m)"
  shows "\<exists>m\<in>set (items src). \<forall>v x. get m v = Some x \<longrightarrow> get m' v = Some x"
proof -
  from out obtain m where m: "m \<in> set (items src)"
    and "m' \<in> set (items (engine_map (graph_find g (bound m pattern))
                            (indexJoin_item m (bound m pattern))))"
    by (auto simp: indexJoin_def engine_mergeMap_def items_stage_append Let_def
        dest!: items_mergeMap_items split: option.splits)
  then obtain item where "indexJoin_item m (bound m pattern) item = Inr m'"
    by (auto simp: engine_map_def items_stage_append dest!: items_map_items split: option.splits)
  then obtain found where "m' = union_bindings found m"
    by (auto simp: indexJoin_item_def Let_def split: sum.splits)
  then have "\<forall>v x. get m v = Some x \<longrightarrow> get m' v = Some x"
    using wf m by (simp add: get_union_bindings)
  then show ?thesis using m by blast
qed

text \<open>
  C2 (the code departs from the claim). On a pattern that holds the same variable twice,
  \<open>indexJoin\<close> asks the graph for the pattern with both positions free, and of a triple
  it finds \<open>mapKeys\<close> keeps the object for the variable. Over the graph of the single
  triple \<open>a p b\<close>, the pattern \<open>?x p ?x\<close> and the empty input mapping give the mapping
  \<open>x = b\<close>, under which the pattern is \<open>b p b\<close>: not a triple of the graph.
\<close>

theorem indexJoin_repeated_variable:
  "indexJoin (engine_of empty_bindings)
      \<lparr>subject = Variable ''x'', predicate = NamedNode ''p'', object = Variable ''x''\<rparr>
      (N3Graph [\<lparr>subject = NamedNode ''a'', predicate = NamedNode ''p'', object = NamedNode ''b''\<rparr>])
   = Stage [\<lparr>content = [(''x'', NamedNode ''b'')], properties = []\<rparr>] None
   \<and> \<not> matched_by [\<lparr>subject = NamedNode ''a'', predicate = NamedNode ''p'', object = NamedNode ''b''\<rparr>]
         \<lparr>content = [(''x'', NamedNode ''b'')], properties = []\<rparr>
         \<lparr>subject = Variable ''x'', predicate = NamedNode ''p'', object = Variable ''x''\<rparr>"
  by (simp add: indexJoin_def N3Graph_def Let_def engine_mergeMap_def engine_of_def
      engine_empty_def stage_append_def bound_def get_def empty_bindings_def N3Graph_find_def
      formatTriplePattern_def getQuads_def engine_from_def engine_map_def indexJoin_item_def
      pickBy_def mapKeys_def triple_entries_def triple_field_def position_isVariable_def
      position_key_def fromMapping_def set_bindings_def union_bindings_def clone_def
      matched_by_def)

subsection \<open>The magic triples of a full text search\<close>

lemma magicTriple_accepts:
  "(\<exists>st1. magicTriple js ns qv st t = Inr st1) \<longleftrightarrow> magic_triple_accepted js ns qv t"
  by (auto simp: magicTriple_def magic_triple_accepted_def SES_def split: option.splits)

lemma magicTriple_error:
  "magicTriple js ns qv st t = Inl e \<Longrightarrow>
   e = SyntaxError \<or> (e = TypeError \<and> term_value (object t) = None)"
  by (auto simp: magicTriple_def SES_def split: option.splits if_splits)

lemma magicTriple_minScore:
  "magicTriple js ns qv st t = Inr st1 \<Longrightarrow>
   minScore st1 = (if term_value (predicate t) = Some (SES ns ''minRelevance'')
                   then Some (Number js (object_value t)) else minScore st)"
  by (auto simp: magicTriple_def SES_def split: option.splits if_splits)

lemma magicTriple_maxScore:
  "magicTriple js ns qv st t = Inr st1 \<Longrightarrow>
   maxScore st1 = (if term_value (predicate t) = Some (SES ns ''maxRelevance'')
                   then Some (Number js (object_value t)) else maxScore st)"
  by (auto simp: magicTriple_def SES_def split: option.splits if_splits)

lemma magicTriple_maxRank:
  "magicTriple js ns qv st t = Inr st1 \<Longrightarrow>
   maxRank st1 = (if term_value (predicate t) = Some (SES ns ''maxRank'')
                  then Some (Number js (object_value t)) else maxRank st)"
  by (auto simp: magicTriple_def SES_def split: option.splits if_splits)

lemma magicTriple_minRank:
  "magicTriple js ns qv st t = Inr st1 \<Longrightarrow>
   minRank st1 = (if term_value (predicate t) = Some (SES ns ''minRank'')
                  then Some (Number js (object_value t))
                  else if term_value (predicate t) = Some (SES ns ''rank'') \<and> minRank st = None
                  then Some (Finite 0) else minRank st)"
  by (auto simp: magicTriple_def SES_def split: option.splits if_splits)

lemma forEach_accepts:
  "(\<exists>st1. magicTriples_forEach js ns qv st ts = Inr st1)
   \<longleftrightarrow> list_all (magic_triple_accepted js ns qv) ts"
proof (induction ts arbitrary: st)
  case Nil
  then show ?case by simp
next
  case (Cons t ts)
  show ?case
  proof (cases "magicTriple js ns qv st t")
    case (Inl e)
    then have "\<not> magic_triple_accepted js ns qv t"
      using magicTriple_accepts[of js ns qv st t] by simp
    then show ?thesis by (simp add: Inl)
  next
    case (Inr st1)
    then have "magic_triple_accepted js ns qv t"
      using magicTriple_accepts[of js ns qv st t] by auto
    then show ?thesis by (simp add: Inr Cons.IH)
  qed
qed

lemma forEach_error:
  "magicTriples_forEach js ns qv st ts = Inl e \<Longrightarrow>
   e = SyntaxError \<or> (e = TypeError \<and> \<not> list_all (\<lambda>t. term_value (object t) \<noteq> None) ts)"
proof (induction ts arbitrary: st)
  case Nil
  then show ?case by simp
next
  case (Cons t ts)
  show ?case
  proof (cases "magicTriple js ns qv st t")
    case (Inl e1)
    then have "e1 = e" using Cons.prems by simp
    then show ?thesis using magicTriple_error[OF Inl] by auto
  next
    case (Inr st1)
    then have "magicTriples_forEach js ns qv st1 ts = Inl e" using Cons.prems by simp
    from Cons.IH[OF this] show ?thesis by auto
  qed
qed

lemma forEach_Cons:
  "magicTriples_forEach js ns qv st (t # ts) = Inr st1 \<Longrightarrow>
   \<exists>st2. magicTriple js ns qv st t = Inr st2 \<and> magicTriples_forEach js ns qv st2 ts = Inr st1"
  by (cases "magicTriple js ns qv st t") simp_all

lemma forEach_minScore:
  "magicTriples_forEach js ns qv st ts = Inr st1 \<Longrightarrow>
   minScore st1 = (case last_bound js ns ''minRelevance'' ts of Some n \<Rightarrow> Some n | None \<Rightarrow> minScore st)"
proof (induction ts arbitrary: st)
  case Nil
  then show ?case by simp
next
  case (Cons t ts)
  from forEach_Cons[OF Cons.prems] obtain st2 where step: "magicTriple js ns qv st t = Inr st2"
    and rest: "magicTriples_forEach js ns qv st2 ts = Inr st1" by blast
  show ?case
    by (simp add: Cons.IH[OF rest] magicTriple_minScore[OF step] split: option.splits)
qed

lemma forEach_maxScore:
  "magicTriples_forEach js ns qv st ts = Inr st1 \<Longrightarrow>
   maxScore st1 = (case last_bound js ns ''maxRelevance'' ts of Some n \<Rightarrow> Some n | None \<Rightarrow> maxScore st)"
proof (induction ts arbitrary: st)
  case Nil
  then show ?case by simp
next
  case (Cons t ts)
  from forEach_Cons[OF Cons.prems] obtain st2 where step: "magicTriple js ns qv st t = Inr st2"
    and rest: "magicTriples_forEach js ns qv st2 ts = Inr st1" by blast
  show ?case
    by (simp add: Cons.IH[OF rest] magicTriple_maxScore[OF step] split: option.splits)
qed

lemma forEach_maxRank:
  "magicTriples_forEach js ns qv st ts = Inr st1 \<Longrightarrow>
   maxRank st1 = (case last_bound js ns ''maxRank'' ts of Some n \<Rightarrow> Some n | None \<Rightarrow> maxRank st)"
proof (induction ts arbitrary: st)
  case Nil
  then show ?case by simp
next
  case (Cons t ts)
  from forEach_Cons[OF Cons.prems] obtain st2 where step: "magicTriple js ns qv st t = Inr st2"
    and rest: "magicTriples_forEach js ns qv st2 ts = Inr st1" by blast
  show ?case
    by (simp add: Cons.IH[OF rest] magicTriple_maxRank[OF step] split: option.splits)
qed

lemma forEach_minRank:
  "magicTriples_forEach js ns qv st ts = Inr st1 \<Longrightarrow>
   minRank st1 = (case last_bound js ns ''minRank'' ts of
                    Some n \<Rightarrow> Some n
                  | None \<Rightarrow> (if minRank st = None
                                \<and> list_ex (\<lambda>t. term_value (predicate t) = Some (SES ns ''rank'')) ts
                             then Some (Finite 0) else minRank st))"
proof (induction ts arbitrary: st)
  case Nil
  then show ?case by simp
next
  case (Cons t ts)
  from forEach_Cons[OF Cons.prems] obtain st2 where step: "magicTriple js ns qv st t = Inr st2"
    and rest: "magicTriples_forEach js ns qv st2 ts = Inr st1" by blast
  have distinct_names: "SES ns ''minRank'' \<noteq> SES ns ''rank''" by (simp add: SES_def)
  show ?case
    using distinct_names
    by (simp add: Cons.IH[OF rest] magicTriple_minRank[OF step] split: option.splits)
qed

lemma accepted_maxRank_triple:
  "magic_triple_accepted js ns qv t \<Longrightarrow> term_value (predicate t) = Some (SES ns ''maxRank'')
   \<Longrightarrow> \<not> negative (Number js (object_value t))"
  by (simp add: magic_triple_accepted_def)

lemma accepted_maxRank:
  "list_all (magic_triple_accepted js ns qv) ts \<Longrightarrow> last_bound js ns ''maxRank'' ts = Some m
   \<Longrightarrow> \<not> negative m"
proof (induction ts)
  case Nil
  then show ?case by simp
next
  case (Cons t ts)
  show ?case
  proof (cases "last_bound js ns ''maxRank'' ts")
    case (Some n)
    then show ?thesis using Cons by simp
  next
    case None
    then have "term_value (predicate t) = Some (SES ns ''maxRank'')"
      and "m = Number js (object_value t)"
      using Cons.prems(2) by (simp_all split: if_splits)
    moreover have "magic_triple_accepted js ns qv t" using Cons.prems(1) by simp
    ultimately show ?thesis using accepted_maxRank_triple by blast
  qed
qed

text \<open>
  C8, as stated, fails in its last part ("otherwise the stage is built without error"):
  a \<open>search\<close> triple whose object is not a literal is a \<open>SyntaxError\<close>, with no bound
  given at all.
\<close>

theorem full_text_search_counterexample:
  "buildFullTextSearchIterator example_javascript example_namespace ''o''
     [\<lparr>subject = Variable ''o'', predicate = NamedNode (SES example_namespace ''search''),
       object = NamedNode ''http://example.org/neil''\<rparr>]
   = Inl SyntaxError"
  by (simp add: buildFullTextSearchIterator_def magicTriple_def SES_def)

text \<open>
  C8, amended. The stage is built without error exactly when every magic triple is
  accepted (its subject is the query variable; the object of \<open>search\<close> is a literal;
  the object of \<open>minRelevance\<close> or \<open>maxRelevance\<close> is a literal that parses as a number;
  the object of \<open>minRank\<close> or \<open>maxRank\<close> is a literal that parses as a non-negative
  integer; the object of \<open>relevance\<close> or \<open>rank\<close> is a variable), the last
  \<open>minRelevance\<close> does not exceed the last \<open>maxRelevance\<close>, and the last \<open>minRank\<close> does
  not exceed the last \<open>maxRank\<close>. Otherwise an error is raised, and it is a
  \<open>SyntaxError\<close> when every object is a term that has a value.
\<close>

theorem full_text_search_validation:
  "((\<exists>st. buildFullTextSearchIterator js ns queryVariable magicTriples = Inr st)
     \<longleftrightarrow> list_all (magic_triple_accepted js ns queryVariable) magicTriples
        \<and> \<not> exceeds (last_bound js ns ''minRelevance'' magicTriples)
                     (last_bound js ns ''maxRelevance'' magicTriples)
        \<and> \<not> exceeds (last_bound js ns ''minRank'' magicTriples)
                     (last_bound js ns ''maxRank'' magicTriples))
   \<and> (\<forall>e. buildFullTextSearchIterator js ns queryVariable magicTriples = Inl e
          \<and> list_all (\<lambda>t. term_value (object t) \<noteq> None) magicTriples
        \<longrightarrow> e = SyntaxError)"
proof -
  let ?loop = "magicTriples_forEach js ns queryVariable default_parameters magicTriples"
  have err: "e = SyntaxError"
    if "buildFullTextSearchIterator js ns queryVariable magicTriples = Inl e"
      and "list_all (\<lambda>t. term_value (object t) \<noteq> None) magicTriples" for e
  proof (cases ?loop)
    case (Inl e1)
    then have "e1 = e" using that(1) by (simp add: buildFullTextSearchIterator_def)
    then show ?thesis using forEach_error[OF Inl] that(2) by auto
  next
    case (Inr st)
    then show ?thesis
      using that(1) by (auto simp: buildFullTextSearchIterator_def split: if_splits)
  qed
  have iff: "(\<exists>st. buildFullTextSearchIterator js ns queryVariable magicTriples = Inr st)
     \<longleftrightarrow> list_all (magic_triple_accepted js ns queryVariable) magicTriples
        \<and> \<not> exceeds (last_bound js ns ''minRelevance'' magicTriples)
                     (last_bound js ns ''maxRelevance'' magicTriples)
        \<and> \<not> exceeds (last_bound js ns ''minRank'' magicTriples)
                     (last_bound js ns ''maxRank'' magicTriples)"
  proof (cases ?loop)
    case (Inl e)
    then have "\<not> list_all (magic_triple_accepted js ns queryVariable) magicTriples"
      using forEach_accepts[of js ns queryVariable default_parameters magicTriples] by simp
    then show ?thesis by (simp add: buildFullTextSearchIterator_def Inl)
  next
    case (Inr st)
    then have acc: "list_all (magic_triple_accepted js ns queryVariable) magicTriples"
      using forEach_accepts[of js ns queryVariable default_parameters magicTriples] by auto
    note b = forEach_minRank[OF Inr]
    have scores: "minScore st = last_bound js ns ''minRelevance'' magicTriples"
      "maxScore st = last_bound js ns ''maxRelevance'' magicTriples"
      "maxRank st = last_bound js ns ''maxRank'' magicTriples"
      using forEach_minScore[OF Inr] forEach_maxScore[OF Inr] forEach_maxRank[OF Inr]
      by (simp_all add: default_parameters_def split: option.splits)
    have ranks: "exceeds (minRank st) (maxRank st)
                 \<longleftrightarrow> exceeds (last_bound js ns ''minRank'' magicTriples)
                       (last_bound js ns ''maxRank'' magicTriples)"
    proof (cases "last_bound js ns ''minRank'' magicTriples")
      case (Some n)
      then show ?thesis using b by (simp add: scores)
    next
      case None
      have "\<not> exceeds (Some (Finite 0)) (last_bound js ns ''maxRank'' magicTriples)"
        using accepted_maxRank[OF acc]
        by (auto simp: exceeds_def negative_def split: option.splits)
      then show ?thesis
        using b None by (auto simp: scores default_parameters_def exceeds_def split: if_splits)
    qed
    show ?thesis
      using acc ranks by (auto simp: buildFullTextSearchIterator_def Inr scores)
  qed
  show ?thesis using iff err by blast
qed

theorem full_text_search_validation_witness:
  "\<exists>st. buildFullTextSearchIterator example_javascript example_namespace ''o'' neil_gaiman = Inr st"
  using full_text_search_validation[of example_javascript example_namespace "''o''" neil_gaiman]
  by (simp add: neil_gaiman_def magic_triple_accepted_def SES_def example_namespace_def
      example_javascript_def object_value_def negative_def exceeds_def)

text \<open>The parameters of the stage of the example.\<close>

lemma neil_gaiman_parameters:
  "buildFullTextSearchIterator example_javascript example_namespace ''o'' neil_gaiman
   = Inr \<lparr>keywords_fts = [''neil'', ''gaiman''], matchAll = False,
          minScore = Some (Finite (1 / 4)), maxScore = None,
          minRank = Some (Finite 0), maxRank = Some (Finite 5),
          addScore = False, addRank = True, scoreVariable = None,
          rankVariable = Some (Variable ''r'')\<rparr>"
  by (simp add: buildFullTextSearchIterator_def neil_gaiman_def magicTriple_def SES_def
      example_namespace_def example_javascript_def object_value_def negative_def exceeds_def
      default_parameters_def)

end
